theory Spec2Isabelle
  imports Complex_Main "HOL-Library.Word"
begin

section \<open>JavaScript values\<close>

text \<open>
  A JavaScript string is a sequence of UTF-16 code units. A code unit is a natural
  number here, so that the white space and line terminators above U+00FF, which the
  regular expressions of the source distinguish, are in the model.
\<close>

type_synonym jsstring = "nat list"

type_synonym byte = "8 word"

definition str :: "string \<Rightarrow> jsstring" where
  "str s = map of_char s"

text \<open>Truthiness of an optional string: \<open>undefined\<close>, \<open>null\<close> and \<open>''\<close> are falsy.\<close>

fun truthy :: "jsstring option \<Rightarrow> bool" where
  "truthy None = False"
| "truthy (Some s) = (s \<noteq> [])"

text \<open>\<open>a || d\<close> for an optional string \<open>a\<close> and a string \<open>d\<close>.\<close>

fun or_default :: "jsstring option \<Rightarrow> jsstring \<Rightarrow> jsstring" where
  "or_default None d = d"
| "or_default (Some s) d = (if s = [] then d else s)"

definition starts_with :: "jsstring \<Rightarrow> jsstring \<Rightarrow> bool" where
  "starts_with p s = (take (length p) s = p)"

definition ends_with :: "jsstring \<Rightarrow> jsstring \<Rightarrow> bool" where
  "ends_with p s = (length p \<le> length s \<and> drop (length s - length p) s = p)"

text \<open>\<open>s.includes(p)\<close>\<close>

fun occurs_in :: "jsstring \<Rightarrow> jsstring \<Rightarrow> bool" where
  "occurs_in p [] = (p = [])"
| "occurs_in p (c # s) = (starts_with p (c # s) \<or> occurs_in p s)"

text \<open>The line terminators of ECMAScript: LF, CR, LS, PS. The regular expression atom
  \<open>.\<close> matches every code unit but these.\<close>

definition is_line_terminator :: "nat \<Rightarrow> bool" where
  "is_line_terminator c = (c = 10 \<or> c = 13 \<or> c = 8232 \<or> c = 8233)"

text \<open>The class \<open>\s\<close>, which is also what \<open>String.prototype.trim\<close> removes: the
  white space of ECMAScript and the line terminators.\<close>

definition is_space :: "nat \<Rightarrow> bool" where
  "is_space c = (c = 9 \<or> c = 10 \<or> c = 11 \<or> c = 12 \<or> c = 13 \<or> c = 32 \<or> c = 160
     \<or> c = 5760 \<or> (8192 \<le> c \<and> c \<le> 8202) \<or> c = 8232 \<or> c = 8233 \<or> c = 8239
     \<or> c = 8287 \<or> c = 12288 \<or> c = 65279)"

definition trim_end :: "jsstring \<Rightarrow> jsstring" where
  "trim_end s = rev (dropWhile is_space (rev s))"

definition trim :: "jsstring \<Rightarrow> jsstring" where
  "trim s = trim_end (dropWhile is_space s)"

text \<open>A thrown value: an instance of \<open>Error\<close> with its message, or anything else.\<close>

datatype thrown = ErrorObj jsstring jsstring | NonError

text \<open>
  \<open>ErrorObj n m\<close> is an instance of \<open>Error\<close> whose constructor is named \<open>n\<close> and whose
  message is \<open>m\<close>. \<open>message_or e d\<close> is \<open>e instanceof Error ? e.message : d\<close> and
  \<open>ctor_name_or e d\<close> is \<open>e instanceof Error ? e.constructor.name : d\<close>.
\<close>

fun message_or :: "thrown \<Rightarrow> jsstring \<Rightarrow> jsstring" where
  "message_or (ErrorObj n m) d = m"
| "message_or NonError d = d"

fun ctor_name_or :: "thrown \<Rightarrow> jsstring \<Rightarrow> jsstring" where
  "ctor_name_or (ErrorObj n m) d = n"
| "ctor_name_or NonError d = d"

text \<open>The string of an optional string that has passed a truthiness test.\<close>

fun str_val :: "jsstring option \<Rightarrow> jsstring" where
  "str_val None = []"
| "str_val (Some s) = s"

text \<open>The values \<open>JSON.parse\<close> returns.\<close>

datatype json =
    JNull
  | JBool bool
  | JNumber rat
  | JString jsstring
  | JArray "json list"
  | JObject "(jsstring \<times> json) list"

text \<open>
  The built-ins of the runtime that the source calls and whose code is not part of the
  repository are parameters:
  \<^item> \<open>json_parse\<close> is \<open>JSON.parse\<close>; \<open>Inl m\<close> is a \<open>SyntaxError\<close> with message \<open>m\<close>;
  \<^item> \<open>keys_null_message\<close> is the message of the \<open>TypeError\<close> that \<open>Object.keys(null)\<close>
    throws;
  \<^item> \<open>to_base64\<close> is \<open>Buffer.prototype.toString('base64')\<close>;
  \<^item> \<open>id_matches j t\<close> is \<open>j.id === parseInt(t)\<close> for a job id \<open>j\<close> of the queue
    library and the path parameter \<open>t\<close>.
\<close>

record runtime =
  json_parse :: "jsstring \<Rightarrow> jsstring + json"
  keys_null_message :: jsstring
  to_base64 :: "byte list \<Rightarrow> jsstring"
  id_matches :: "jsstring \<Rightarrow> jsstring \<Rightarrow> bool"

section \<open>Task payload and result (processor.ts)\<close>

record FoodValidationTask =
  imageFile :: "byte list option"
  imageUrl :: "jsstring option"
  imageBase64 :: "jsstring option"
  foodName :: "jsstring option"
  ingredients :: "jsstring option"
  mediaType :: "jsstring option"

datatype result_status = ResCompleted | ResFailed

record FoodValidationResult =
  taskId :: jsstring
  status :: result_status
  result :: "json option"
  error :: "jsstring option"
  processingTime :: int
  completedAt :: jsstring

text \<open>
  The \<open>data\<close> of a file part of the user message: a buffer of bytes, a string (the
  URL), or the buffer \<open>Buffer.from(s, 'base64')\<close>, which is kept as the string \<open>s\<close>
  that is handed to the decoder.
\<close>

datatype file_data = BufferData "byte list" | StringData jsstring | FromBase64 jsstring

datatype content_part = TextPart jsstring | FilePart file_data jsstring

section \<open>The classification adapter (processor.ts)\<close>

definition default_media_type :: jsstring where
  "default_media_type = str ''image/jpeg''"

text \<open>
  \<open>s.match(/^data:([^;]+);base64,(.+)$/)\<close>: the groups 1 and 2 of the match, if any.
  The class \<open>[^;]+\<close> stops at the first semicolon and nowhere else, \<open>.+\<close> takes no line
  terminator, and \<open>$\<close> (no \<open>m\<close> flag) is the end of the string.
\<close>

definition match_data_url :: "jsstring \<Rightarrow> (jsstring \<times> jsstring) option" where
  "match_data_url s =
     (if \<not> starts_with (str ''data:'') s then None
      else
        let rest = drop 5 s;
            mt = takeWhile (\<lambda>c. c \<noteq> 59) rest;
            after = dropWhile (\<lambda>c. c \<noteq> 59) rest
        in if mt = [] then None
           else if \<not> starts_with (str '';base64,'') after then None
           else
             let d = drop 8 after
             in if d = [] \<or> list_ex is_line_terminator d then None
                else Some (mt, d))"

text \<open>Lines 81 to 91: the string to decode and the media type of a base64 image.\<close>

definition normalize_base64 :: "jsstring \<Rightarrow> jsstring option \<Rightarrow> jsstring \<times> jsstring" where
  "normalize_base64 b64 mt =
     (let cleanBase64 = b64;
          mediaType' = or_default mt default_media_type
      in if starts_with (str ''data:'') b64 then
           (case match_data_url b64 of
              Some (m1, m2) \<Rightarrow> (m2, m1)
            | None \<Rightarrow> (cleanBase64, mediaType'))
         else (cleanBase64, mediaType'))"

text \<open>Lines 60 to 102: the file part pushed onto \<open>userContent\<close>, if any.\<close>

definition image_part :: "FoodValidationTask \<Rightarrow> content_part option" where
  "image_part d =
     (case imageFile d of
        Some buf \<Rightarrow> Some (FilePart (BufferData buf) (or_default (mediaType d) default_media_type))
      | None \<Rightarrow>
          if truthy (imageUrl d) then
            Some (FilePart (StringData (str_val (imageUrl d))) default_media_type)
          else if truthy (imageBase64 d) then
            (let (cleanBase64, mt) = normalize_base64 (str_val (imageBase64 d)) (mediaType d)
             in Some (FilePart (FromBase64 cleanBase64) mt))
          else None)"

text \<open>Lines 55 and 105 to 118: the text of the first part.\<close>

definition user_text :: "FoodValidationTask \<Rightarrow> jsstring" where
  "user_text d =
     (let foodName' = or_default (foodName d) [];
          ingredients' = or_default (ingredients d) [];
          t0 = str ''Please analyze this food image and determine its compliance with various dietary standards.''
      in if foodName' \<noteq> [] \<or> ingredients' \<noteq> [] then
           t0 @ str ''\<newline>\<newline>Additional information:\<newline>''
              @ (if foodName' \<noteq> [] then str ''Food name: '' @ foodName' @ str ''\<newline>'' else [])
              @ (if ingredients' \<noteq> [] then str ''Ingredients: '' @ ingredients' @ str ''\<newline>'' else [])
         else t0)"

definition user_content :: "FoodValidationTask \<Rightarrow> content_part list" where
  "user_content d =
     TextPart (user_text d) # (case image_part d of None \<Rightarrow> [] | Some p \<Rightarrow> [p])"

text \<open>
  \<open>s.replace(/\s*```$/, '')\<close>: the leftmost match is the closing fence at the very end
  together with all the white space before it.
\<close>

definition strip_closing_fence :: "jsstring \<Rightarrow> jsstring" where
  "strip_closing_fence s =
     (if ends_with (str ''```'') s then trim_end (take (length s - 3) s) else s)"

text \<open>Lines 146 to 155.\<close>

definition clean_response :: "jsstring \<Rightarrow> jsstring" where
  "clean_response text' =
     (let cleanResponse = trim text'
      in if starts_with (str ''```json'') cleanResponse then
           strip_closing_fence (dropWhile is_space (drop 7 cleanResponse))
         else if starts_with (str ''```'') cleanResponse then
           strip_closing_fence (dropWhile is_space (drop 3 cleanResponse))
         else cleanResponse)"

definition parse_failure_prefix :: jsstring where
  "parse_failure_prefix = str ''Failed to parse AI response as JSON: ''"

text \<open>
  Lines 144 to 175, the inner \<open>try\<close>: \<open>JSON.parse\<close> of the cleaned reply, then
  \<open>Object.keys\<close> of the parsed value (which throws on \<open>null\<close>); whatever is thrown is
  caught and rethrown as an \<open>Error\<close> with the prefixed message.
\<close>

definition parse_reply :: "runtime \<Rightarrow> jsstring \<Rightarrow> thrown + json" where
  "parse_reply rt text' =
     (case json_parse rt (clean_response text') of
        Inl m \<Rightarrow> Inl (ErrorObj (str ''Error'') (parse_failure_prefix @ m))
      | Inr j \<Rightarrow>
          if j = JNull then
            Inl (ErrorObj (str ''Error'') (parse_failure_prefix @ keys_null_message rt))
          else Inr j)"

text \<open>
  What one run of the handler gets from outside: the external model call (it may throw,
  or reply with a text, and need not answer the same request twice alike), and the
  clock readings at the start and at the end of the run.
\<close>

record attempt_env =
  generateText :: "content_part list \<Rightarrow> thrown + jsstring"
  startTime :: int
  endTime :: int
  endIso :: jsstring

text \<open>Lines 49 to 176: the body of the outer \<open>try\<close>.\<close>

definition process_body ::
  "runtime \<Rightarrow> attempt_env \<Rightarrow> jsstring \<Rightarrow> FoodValidationTask \<Rightarrow> thrown + FoodValidationResult" where
  "process_body rt env tid d =
     (case generateText env (user_content d) of
        Inl e \<Rightarrow> Inl e
      | Inr text' \<Rightarrow>
          (case parse_reply rt text' of
             Inl e \<Rightarrow> Inl e
           | Inr jsonResponse \<Rightarrow>
               Inr \<lparr> taskId = tid, status = ResCompleted, result = Some jsonResponse,
                     error = None, processingTime = endTime env - startTime env,
                     completedAt = endIso env \<rparr>))"

text \<open>
  \<open>processFoodValidation\<close>, lines 34 to 192, for the job with the identifier \<open>jid\<close>
  and the data \<open>d\<close>. \<open>Inl\<close> is a rejected promise, \<open>Inr\<close> a returned result. The outer
  \<open>catch\<close> (lines 177 to 191) turns everything thrown in the body into a returned
  result of status \<open>failed\<close>.
\<close>

definition processFoodValidation ::
  "runtime \<Rightarrow> attempt_env \<Rightarrow> jsstring \<Rightarrow> FoodValidationTask \<Rightarrow> thrown + FoodValidationResult" where
  "processFoodValidation rt env jid d =
     (let taskId' = or_default (Some jid) (str ''unknown'')
      in case process_body rt env taskId' d of
           Inr r \<Rightarrow> Inr r
         | Inl e \<Rightarrow>
             Inr \<lparr> taskId = taskId', status = ResFailed, result = None,
                   error = Some (message_or e (str ''Unknown error'')),
                   processingTime = endTime env - startTime env,
                   completedAt = endIso env \<rparr>)"

section \<open>The worker (worker.ts)\<close>

text \<open>
  The callback given to \<open>foodValidationQueue.process\<close>, lines 7 to 18: it returns what
  \<open>processFoodValidation\<close> returns and rethrows what it throws.
\<close>

definition worker_handler ::
  "runtime \<Rightarrow> attempt_env \<Rightarrow> jsstring \<Rightarrow> FoodValidationTask \<Rightarrow> thrown + FoodValidationResult" where
  "worker_handler rt env jid d =
     (case processFoodValidation rt env jid d of
        Inr r \<Rightarrow> Inr r
      | Inl e \<Rightarrow> Inl e)"

section \<open>The task queue\<close>

text \<open>
  Modelled from the spec: the task queue is the queue library (Bull) over the broker,
  whose code is not in the repository. Its job record and its retry policy are taken
  from the spec's sections 3 and 4.1: a job is created \<open>waiting\<close>, becomes \<open>active\<close> when a
  worker claims it, and is \<open>completed\<close> (terminal, holds the result) when the handler
  returns; when the handler throws, the attempt counter goes up and the job is queued
  again (\<open>delayed\<close>, for the backoff) until the counter equals the bound, and then it
  is \<open>failed\<close> (terminal, holds the failure reason). The field names are those that
  the status endpoint of the source reads.
\<close>

datatype job_state = Waiting | Active | Completed | Failed | Delayed

text \<open>The options of \<open>foodValidationQueue.add\<close> (part_002, lines 105 to 113).\<close>

record job_opts =
  priority :: nat
  delay :: nat
  attempts :: nat
  backoff_delay :: nat

record job_record =
  job_id :: jsstring
  job_data :: FoodValidationTask
  opts :: job_opts
  job_state :: job_state
  progress :: nat
  timestamp :: int
  processedOn :: "int option"
  finishedOn :: "int option"
  attemptsMade :: nat
  returnvalue :: "FoodValidationResult option"
  failedReason :: "jsstring option"

type_synonym queue = "job_record list"

type_synonym handler =
  "attempt_env \<Rightarrow> jsstring \<Rightarrow> FoodValidationTask \<Rightarrow> thrown + FoodValidationResult"

definition terminal :: "job_record \<Rightarrow> bool" where
  "terminal j = (job_state j = Completed \<or> job_state j = Failed)"

fun reason_of :: "thrown \<Rightarrow> jsstring option" where
  "reason_of (ErrorObj n m) = Some m"
| "reason_of NonError = None"

text \<open>Modelled from the spec: what the queue records when an attempt ends at time \<open>now\<close>.\<close>

definition settle_attempt ::
  "int \<Rightarrow> thrown + FoodValidationResult \<Rightarrow> job_record \<Rightarrow> job_record" where
  "settle_attempt now out j =
     (case out of
        Inr r \<Rightarrow> j\<lparr> job_state := Completed, returnvalue := Some r, finishedOn := Some now \<rparr>
      | Inl e \<Rightarrow>
          if Suc (attemptsMade j) < attempts (opts j) then
            j\<lparr> job_state := Delayed, attemptsMade := Suc (attemptsMade j),
               failedReason := reason_of e \<rparr>
          else
            j\<lparr> job_state := Failed, attemptsMade := Suc (attemptsMade j),
               failedReason := reason_of e, finishedOn := Some now \<rparr>)"

text \<open>Modelled from the spec: one attempt, a worker claims the job and runs the handler.\<close>

definition run_attempt :: "handler \<Rightarrow> attempt_env \<Rightarrow> job_record \<Rightarrow> job_record" where
  "run_attempt h env j =
     settle_attempt (endTime env) (h env (job_id j) (job_data j))
       (j\<lparr> job_state := Active, processedOn := Some (startTime env) \<rparr>)"

text \<open>
  Modelled from the spec: the attempts of one job until it is terminal; \<open>envs k\<close> is
  what the attempt made after \<open>k\<close> failed ones gets from outside.
\<close>

function run_job :: "handler \<Rightarrow> (nat \<Rightarrow> attempt_env) \<Rightarrow> job_record \<Rightarrow> job_record" where
  "run_job h envs j =
     (if terminal j then j else run_job h envs (run_attempt h (envs (attemptsMade j)) j))"
  by pat_completeness auto
termination
proof (relation "measure (\<lambda>(h, envs, j).
         if terminal j then 0 else Suc (attempts (opts j) - attemptsMade j))")
  show "wf (measure (\<lambda>(h, envs, j).
         if terminal j then 0 else Suc (attempts (opts j) - attemptsMade j)))"
    by simp
next
  fix h :: handler and envs :: "nat \<Rightarrow> attempt_env" and j :: job_record
  assume "\<not> terminal j"
  then show "((h, envs, run_attempt h (envs (attemptsMade j)) j), (h, envs, j))
      \<in> measure (\<lambda>(h, envs, j).
         if terminal j then 0 else Suc (attempts (opts j) - attemptsMade j))"
    by (cases "h (envs (attemptsMade j)) (job_id j) (job_data j)")
       (auto simp: run_attempt_def settle_attempt_def terminal_def)
qed

declare run_job.simps [simp del]

text \<open>
  Modelled from the spec: \<open>getJob\<close> looks a job up by its identifier, \<open>getWaiting\<close> lists
  the waiting jobs in the order of their insertion. The queue holds the values
  themselves; that the library stores them as JSON text changes no value that
  \<open>JSON.parse\<close> gave.
\<close>

definition getJob :: "queue \<Rightarrow> jsstring \<Rightarrow> job_record option" where
  "getJob q tid = find (\<lambda>j. job_id j = tid) q"

definition getWaiting :: "queue \<Rightarrow> job_record list" where
  "getWaiting q = filter (\<lambda>j. job_state j = Waiting) q"

text \<open>
  Modelled from the spec: \<open>enqueue\<close> with the identifier that the broker assigns; an
  identifier is never assigned twice, so a job under an identifier in use is not added.
\<close>

definition enqueue ::
  "jsstring \<Rightarrow> FoodValidationTask \<Rightarrow> job_opts \<Rightarrow> int \<Rightarrow> queue \<Rightarrow> queue" where
  "enqueue tid d os now q =
     (if getJob q tid \<noteq> None then q
      else q @ [\<lparr> job_id = tid, job_data = d, opts = os, job_state = Waiting, progress = 0,
                  timestamp = now, processedOn = None, finishedOn = None,
                  attemptsMade = 0, returnvalue = None, failedReason = None \<rparr>])"

text \<open>Modelled from the spec: the worker of the source takes the job \<open>tid\<close> to its end.\<close>

definition process_job :: "runtime \<Rightarrow> (nat \<Rightarrow> attempt_env) \<Rightarrow> jsstring \<Rightarrow> queue \<Rightarrow> queue" where
  "process_job rt envs tid q =
     map (\<lambda>j. if job_id j = tid then run_job (worker_handler rt) envs j else j) q"

section \<open>The HTTP gateway (part_002)\<close>

text \<open>
  A response is a status code and a JSON body (\<open>c.json(body, code)\<close>). A property
  whose value is \<open>undefined\<close> is not in the body.
\<close>

record http_response =
  code :: nat
  body :: json

definition jstr :: "string \<Rightarrow> json" where
  "jstr s = JString (str s)"

definition jnum :: "int \<Rightarrow> json" where
  "jnum i = JNumber (of_int i)"

fun opt_field :: "string \<Rightarrow> json option \<Rightarrow> (jsstring \<times> json) list" where
  "opt_field k None = []"
| "opt_field k (Some v) = [(str k, v)]"

text \<open>The property \<open>k\<close> of a JSON object.\<close>

fun field :: "jsstring \<Rightarrow> json \<Rightarrow> json option" where
  "field k (JObject kvs) = map_of kvs k"
| "field k _ = None"

text \<open>The decimal numeral of an integer, as a template literal prints it.\<close>

fun show_nat :: "nat \<Rightarrow> jsstring" where
  "show_nat n = (if n < 10 then [48 + n] else show_nat (n div 10) @ [48 + n mod 10])"

definition show_int :: "int \<Rightarrow> jsstring" where
  "show_int i = (if i < 0 then 45 # show_nat (nat (- i)) else show_nat (nat i))"

fun state_name :: "job_state \<Rightarrow> json" where
  "state_name Waiting = jstr ''waiting''"
| "state_name Active = jstr ''active''"
| "state_name Completed = jstr ''completed''"
| "state_name Failed = jstr ''failed''"
| "state_name Delayed = jstr ''delayed''"

subsection \<open>POST /validate-food\<close>

text \<open>
  The form of the request, with the fields typed as the handler casts them
  (\<open>as File\<close>, \<open>as string\<close>); a field that is not in the form is \<open>None\<close>.
\<close>

record upload =
  upload_name :: jsstring
  upload_type :: jsstring
  upload_bytes :: "byte list"

record form_data =
  form_image :: "upload option"
  form_imageUrl :: "jsstring option"
  form_imageBase64 :: "jsstring option"
  form_foodName :: "jsstring option"
  form_ingredients :: "jsstring option"

text \<open>
  What one request gets from outside: \<open>c.req.formData()\<close>, which throws or gives the
  form; \<open>foodValidationQueue.add\<close>, which throws (the broker is unreachable) or adds the
  job under the identifier the broker assigns, at time \<open>added_at\<close>; and the clock at the
  start and at the end of the request.
\<close>

record request_env =
  formData :: "thrown + form_data"
  broker_add :: "thrown + jsstring"
  added_at :: int
  req_start :: int
  req_end :: int

definition no_image_message :: jsstring where
  "no_image_message =
     str ''Please provide either an image file, image URL, or base64 encoded image''"

text \<open>Lines 73 to 95.\<close>

definition build_task :: "runtime \<Rightarrow> form_data \<Rightarrow> FoodValidationTask" where
  "build_task rt fd =
     (let taskData = \<lparr> imageFile = None, imageUrl = None, imageBase64 = None,
                       foodName = Some (or_default (form_foodName fd) []),
                       ingredients = Some (or_default (form_ingredients fd) []),
                       mediaType = None \<rparr>
      in case form_image fd of
           Some f \<Rightarrow>
             taskData\<lparr> imageBase64 := Some (to_base64 rt (upload_bytes f)),
                       mediaType := Some (or_default (Some (upload_type f)) (str ''image/jpeg'')) \<rparr>
         | None \<Rightarrow>
             if truthy (form_imageUrl fd) then taskData\<lparr> imageUrl := form_imageUrl fd \<rparr>
             else if truthy (form_imageBase64 fd) then
               taskData\<lparr> imageBase64 := form_imageBase64 fd,
                         mediaType := Some (str ''image/jpeg'') \<rparr>
             else taskData)"

text \<open>Lines 105 to 113.\<close>

definition gateway_opts :: job_opts where
  "gateway_opts = \<lparr> priority = 1, delay = 0, attempts = 3, backoff_delay = 2000 \<rparr>"

text \<open>Lines 128 to 144: the \<open>catch\<close> of the handler.\<close>

definition queue_failure :: "request_env \<Rightarrow> thrown \<Rightarrow> http_response" where
  "queue_failure env e =
     \<lparr> code = 500,
       body = JObject
         [(str ''success'', JBool False),
          (str ''error'', jstr ''Failed to queue food validation task''),
          (str ''details'', JString (message_or e (str ''Unknown error''))),
          (str ''error_type'', JString (ctor_name_or e (str ''Unknown''))),
          (str ''request_duration_ms'', jnum (req_end env - req_start env))] \<rparr>"

text \<open>Lines 44 to 145. The result is the response and the queue after the request.\<close>

definition validate_food :: "runtime \<Rightarrow> request_env \<Rightarrow> queue \<Rightarrow> http_response \<times> queue" where
  "validate_food rt env q =
     (case formData env of
        Inl e \<Rightarrow> (queue_failure env e, q)
      | Inr fd \<Rightarrow>
          if form_image fd = None \<and> \<not> truthy (form_imageUrl fd)
             \<and> \<not> truthy (form_imageBase64 fd)
          then (\<lparr> code = 400, body = JObject [(str ''error'', JString no_image_message)] \<rparr>, q)
          else
            (case broker_add env of
               Inl e \<Rightarrow> (queue_failure env e, q)
             | Inr tid \<Rightarrow>
                 (\<lparr> code = 200,
                    body = JObject
                      [(str ''success'', JBool True),
                       (str ''taskId'', JString tid),
                       (str ''message'', jstr ''Food validation task queued successfully''),
                       (str ''estimatedProcessingTime'', jstr ''10-30 seconds''),
                       (str ''statusEndpoint'', JString (str ''/task-status/'' @ tid)),
                       (str ''queueTime'',
                          JString (show_int (req_end env - req_start env) @ str ''ms''))] \<rparr>,
                  enqueue tid (build_task rt fd) gateway_opts (added_at env) q)))"

subsection \<open>GET /task-status/:taskId\<close>

text \<open>\<open>xs.findIndex(P) + 1\<close>\<close>

fun position_of :: "('a \<Rightarrow> bool) \<Rightarrow> 'a list \<Rightarrow> nat" where
  "position_of P [] = 0"
| "position_of P (x # xs) =
     (if P x then 1 else (case position_of P xs of 0 \<Rightarrow> 0 | Suc n \<Rightarrow> Suc (Suc n)))"

text \<open>Lines 173 to 210: the body for a job that was found.\<close>

definition status_body :: "runtime \<Rightarrow> queue \<Rightarrow> jsstring \<Rightarrow> job_record \<Rightarrow> json" where
  "status_body rt q tid job =
     JObject
       ([(str ''success'', JBool True),
         (str ''taskId'', JString tid),
         (str ''status'', state_name (job_state job)),
         (str ''progress'', jnum (int (progress job))),
         (str ''createdAt'', jnum (timestamp job))]
        @ opt_field ''processedAt'' (map_option jnum (processedOn job))
        @ opt_field ''finishedAt'' (map_option jnum (finishedOn job))
        @ [(str ''attempts'', jnum (int (attemptsMade job))),
           (str ''maxAttempts'',
              jnum (int (if attempts (opts job) = 0 then 3 else attempts (opts job))))]
        @ (case returnvalue job of
             Some r \<Rightarrow>
               if job_state job = Completed then
                 opt_field ''result'' (result r)
                 @ [(str ''processingTime'', jnum (processingTime r)),
                    (str ''completedAt'', JString (completedAt r))]
               else []
           | None \<Rightarrow> [])
        @ (if job_state job = Failed \<and> truthy (failedReason job) then
             [(str ''error'', JString (str_val (failedReason job)))]
             @ opt_field ''failedAt'' (map_option jnum (finishedOn job))
           else [])
        @ (if job_state job = Waiting then
             (let position = position_of (\<lambda>j. id_matches rt (job_id j) tid) (getWaiting q)
              in [(str ''queuePosition'', jnum (int position)),
                  (str ''estimatedWaitTime'',
                     JString (show_nat (position * 10) @ str '' seconds''))])
           else [])
        @ (if job_state job = Active then
             opt_field ''processingStartedAt'' (map_option jnum (processedOn job))
             @ [(str ''estimatedCompletionTime'', jstr ''5-15 seconds'')]
           else []))"

text \<open>
  Lines 148 to 224. \<open>broker_error\<close> is what a call of the queue library throws during
  the request, if one does; the handler catches it.
\<close>

definition task_status ::
  "runtime \<Rightarrow> thrown option \<Rightarrow> queue \<Rightarrow> jsstring \<Rightarrow> http_response" where
  "task_status rt broker_error q tid =
     (case broker_error of
        Some e \<Rightarrow>
          \<lparr> code = 500,
            body = JObject
              [(str ''success'', JBool False),
               (str ''error'', jstr ''Failed to retrieve task status''),
               (str ''details'', JString (message_or e (str ''Unknown error''))),
               (str ''taskId'', JString tid)] \<rparr>
      | None \<Rightarrow>
          (case getJob q tid of
             None \<Rightarrow>
               \<lparr> code = 404,
                 body = JObject
                   [(str ''success'', JBool False),
                    (str ''error'', jstr ''Task not found''),
                    (str ''taskId'', JString tid)] \<rparr>
           | Some job \<Rightarrow> \<lparr> code = 200, body = status_body rt q tid job \<rparr>))"

section \<open>The queue between two requests\<close>

text \<open>
  Modelled from the spec: what happens to the queue while the gateway is not looking.
  A task is added; a worker makes one attempt at a job that is not terminal (no
  resurrection after \<open>completed\<close> or \<open>failed\<close>, section 3); or a terminal job expires
  (section 7 has the status poll of an expired identifier answered 404), removed by the
  retention that config.ts, lines 32 to 36, sets (\<open>removeOnComplete\<close>, \<open>removeOnFail\<close>).
\<close>

datatype event =
    Add jsstring FoodValidationTask job_opts int
  | Work jsstring attempt_env
  | Retire jsstring

fun apply_event :: "runtime \<Rightarrow> queue \<Rightarrow> event \<Rightarrow> queue" where
  "apply_event rt q (Add tid d os now) = enqueue tid d os now q"
| "apply_event rt q (Work tid env) =
     map (\<lambda>j. if job_id j = tid \<and> \<not> terminal j
              then run_attempt (worker_handler rt) env j else j) q"
| "apply_event rt q (Retire tid) = filter (\<lambda>j. \<not> (job_id j = tid \<and> terminal j)) q"

definition run_events :: "runtime \<Rightarrow> queue \<Rightarrow> event list \<Rightarrow> queue" where
  "run_events rt q es = foldl (apply_event rt) q es"

section \<open>The concurrency of the worker\<close>

text \<open>
  config.ts, line 20: \<open>parseInt(process.env.QUEUE_CONCURRENCY || '5')\<close>, with
  \<open>parseInt\<close> as a parameter.
\<close>

definition queueConfig_concurrency ::
  "(jsstring \<Rightarrow> int option) \<Rightarrow> jsstring option \<Rightarrow> int option" where
  "queueConfig_concurrency parseInt env_value = parseInt (or_default env_value (str ''5''))"

text \<open>
  worker.ts, line 7: the call \<open>foodValidationQueue.process('food-validation', handler)\<close>
  has a name and a handler and no concurrency argument.
\<close>

record process_call =
  call_name :: jsstring
  call_concurrency :: "nat option"

definition worker_process_call :: process_call where
  "worker_process_call = \<lparr> call_name = str ''food-validation'', call_concurrency = None \<rparr>"

text \<open>
  Modelled from the spec: the worker loop claims a waiting job only while fewer jobs
  than its concurrency are in flight (section 4.2). The concurrency of a worker is the
  argument of its call of \<open>process\<close>; when the call has none, it is the default of the
  queue library, which is a parameter here (the library documents 1).
\<close>

definition effective_concurrency :: "nat \<Rightarrow> process_call \<Rightarrow> nat" where
  "effective_concurrency library_default c =
     (case call_concurrency c of None \<Rightarrow> library_default | Some n \<Rightarrow> n)"

record worker_state =
  pending :: "jsstring list"
  in_flight :: "jsstring list"

datatype worker_event = Claim | Finish jsstring

fun worker_step :: "nat \<Rightarrow> worker_state \<Rightarrow> worker_event \<Rightarrow> worker_state" where
  "worker_step n s Claim =
     (case pending s of
        [] \<Rightarrow> s
      | t # ts \<Rightarrow>
          if length (in_flight s) < n then \<lparr> pending = ts, in_flight = in_flight s @ [t] \<rparr>
          else s)"
| "worker_step n s (Finish t) = s\<lparr> in_flight := remove1 t (in_flight s) \<rparr>"

definition run_worker :: "nat \<Rightarrow> worker_state \<Rightarrow> worker_event list \<Rightarrow> worker_state" where
  "run_worker n s evs = foldl (worker_step n) s evs"

section \<open>The Classification Result\<close>

text \<open>
  The shape of the reply that the system prompt asks for (part_001, lines 131 to 145;
  the spec, section 3): a food name, a list of ingredient strings, five yes/no flags
  and a list of reason strings.
\<close>

fun is_string :: "json option \<Rightarrow> bool" where
  "is_string (Some (JString s)) = True"
| "is_string _ = False"

fun is_yes_no :: "json option \<Rightarrow> bool" where
  "is_yes_no (Some (JString s)) = (s = str ''yes'' \<or> s = str ''no'')"
| "is_yes_no _ = False"

fun is_string_list :: "json option \<Rightarrow> bool" where
  "is_string_list (Some (JArray xs)) = list_all (\<lambda>x. is_string (Some x)) xs"
| "is_string_list _ = False"

definition is_classification_result :: "json \<Rightarrow> bool" where
  "is_classification_result j =
     (is_string (field (str ''food_item'') j)
      \<and> is_string_list (field (str ''ingredients'') j)
      \<and> is_yes_no (field (str ''is_veg'') j)
      \<and> is_yes_no (field (str ''is_swaminarayan_compliant'') j)
      \<and> is_yes_no (field (str ''is_jain_compliant'') j)
      \<and> is_yes_no (field (str ''is_vegan_compliant'') j)
      \<and> is_yes_no (field (str ''is_upvas_compliant'') j)
      \<and> is_string_list (field (str ''reason'') j))"

section \<open>Concrete inputs\<close>

text \<open>
  A reply of the model inside a code fence, the JSON text in it, and the value that
  text stands for.
\<close>

definition ex_json_text :: jsstring where
  \<open>ex_json_text = str ''{"food_item":"Potato Chips","ingredients":["potato","oil","salt"],"is_veg":"yes","is_swaminarayan_compliant":"yes","is_jain_compliant":"no","is_vegan_compliant":"yes","is_upvas_compliant":"yes","reason":["- Potato is a root vegetable."]}''\<close>

definition ex_reply :: jsstring where
  "ex_reply = str ''```json\<newline>'' @ ex_json_text @ str ''\<newline>```\<newline>''"

definition ex_result :: json where
  "ex_result = JObject
     [(str ''food_item'', jstr ''Potato Chips''),
      (str ''ingredients'', JArray [jstr ''potato'', jstr ''oil'', jstr ''salt'']),
      (str ''is_veg'', jstr ''yes''),
      (str ''is_swaminarayan_compliant'', jstr ''yes''),
      (str ''is_jain_compliant'', jstr ''no''),
      (str ''is_vegan_compliant'', jstr ''yes''),
      (str ''is_upvas_compliant'', jstr ''yes''),
      (str ''reason'', JArray [jstr ''- Potato is a root vegetable.''])]"

text \<open>The standard base64 encoding with padding, for the runtime of the examples.\<close>

definition b64_digit :: "nat \<Rightarrow> nat" where
  "b64_digit n = str ''ABCDEFGHIJKLMNOPQRSTUVWXYZabcdefghijklmnopqrstuvwxyz0123456789+/'' ! (n mod 64)"

fun base64_encode :: "byte list \<Rightarrow> jsstring" where
  "base64_encode [] = []"
| "base64_encode [a] =
     [b64_digit (unat a div 4), b64_digit (unat a mod 4 * 16), 61, 61]"
| "base64_encode [a, b] =
     [b64_digit (unat a div 4), b64_digit (unat a mod 4 * 16 + unat b div 16),
      b64_digit (unat b mod 16 * 4), 61]"
| "base64_encode (a # b # c # rest) =
     [b64_digit (unat a div 4), b64_digit (unat a mod 4 * 16 + unat b div 16),
      b64_digit (unat b mod 16 * 4 + unat c div 64), b64_digit (unat c mod 64)]
     @ base64_encode rest"

text \<open>
  The message of the \<open>SyntaxError\<close> with which the \<open>JSON.parse\<close> of V8 rejects a text at
  its first character: it names the character and quotes the text, or, of a text of 21
  code units or more, its first ten code units.
\<close>

fun v8_unexpected_token :: "jsstring \<Rightarrow> jsstring" where
  "v8_unexpected_token [] = str ''Unexpected end of JSON input''"
| "v8_unexpected_token (c # cs) =
     str ''Unexpected token '' @ [39, c, 39] @ str '', '' @ [34]
     @ (if length (c # cs) < 21 then c # cs else take 10 (c # cs)) @ [34]
     @ (if length (c # cs) < 21 then [] else str ''...'') @ str '' is not valid JSON''"

text \<open>
  A runtime for the examples: its \<open>JSON.parse\<close> knows the one JSON text above and the
  text \<open>null\<close>, and rejects every other string at its first character.
\<close>

definition ex_runtime :: runtime where
  "ex_runtime =
     \<lparr> json_parse = (\<lambda>s. if s = ex_json_text then Inr ex_result
                          else if s = str ''null'' then Inr JNull
                          else Inl (v8_unexpected_token s)),
       keys_null_message = str ''Cannot convert undefined or null to object'',
       to_base64 = base64_encode,
       id_matches = (\<lambda>j t. j = t) \<rparr>"

text \<open>The same JSON text inside a fence whose info string is in upper case.\<close>

definition ex_upper_reply :: jsstring where
  "ex_upper_reply = str ''```JSON\<newline>'' @ ex_json_text @ str ''\<newline>```''"

text \<open>
  Four runs of the handler: the model replies, the call fails, the reply is prose, the
  reply has the upper-case fence.
\<close>

definition ex_env_ok :: attempt_env where
  "ex_env_ok = \<lparr> generateText = (\<lambda>c. Inr ex_reply), startTime = 1000, endTime = 9000,
                 endIso = str ''2025-01-01T00:00:09.000Z'' \<rparr>"

definition ex_env_fail :: attempt_env where
  "ex_env_fail =
     \<lparr> generateText = (\<lambda>c. Inl (ErrorObj (str ''APICallError'') (str ''Too Many Requests''))),
       startTime = 1000, endTime = 1200, endIso = str ''2025-01-01T00:00:01.200Z'' \<rparr>"

definition ex_env_prose :: attempt_env where
  "ex_env_prose = \<lparr> generateText = (\<lambda>c. Inr (str ''This looks like potato chips.'')),
                    startTime = 1000, endTime = 9000,
                    endIso = str ''2025-01-01T00:00:09.000Z'' \<rparr>"

definition ex_env_upper :: attempt_env where
  "ex_env_upper = \<lparr> generateText = (\<lambda>c. Inr ex_upper_reply), startTime = 1000,
                    endTime = 9000, endIso = str ''2025-01-01T00:00:09.000Z'' \<rparr>"

definition ex_task :: FoodValidationTask where
  "ex_task = \<lparr> imageFile = None, imageUrl = None, imageBase64 = Some (str ''iVBORw0KGgo=''),
               foodName = Some (str ''Potato Chips''),
               ingredients = Some (str ''potato, oil, salt''),
               mediaType = Some (str ''image/jpeg'') \<rparr>"

definition ex_job :: job_record where
  "ex_job = \<lparr> job_id = str ''1'', job_data = ex_task, opts = gateway_opts,
              job_state = Waiting, progress = 0, timestamp = 900, processedOn = None,
              finishedOn = None, attemptsMade = 0, returnvalue = None,
              failedReason = None \<rparr>"

text \<open>A job that has completed with the result above.\<close>

definition ex_done_job :: job_record where
  "ex_done_job = \<lparr> job_id = str ''1'', job_data = ex_task, opts = gateway_opts,
      job_state = Completed, progress = 0, timestamp = 900, processedOn = Some 1000,
      finishedOn = Some 9000, attemptsMade = 0,
      returnvalue = Some \<lparr> taskId = str ''1'', status = ResCompleted,
        result = Some ex_result, error = None, processingTime = 8000,
        completedAt = str ''2025-01-01T00:00:09.000Z'' \<rparr>,
      failedReason = None \<rparr>"

text \<open>
  Tasks: raw base64 of a PNG as the gateway queues an uploaded file; a data URL; a data
  URL whose media type has a parameter; a data URL whose data is wrapped over two
  lines; and a task with all three image fields.
\<close>

definition ex_png_task :: FoodValidationTask where
  "ex_png_task = \<lparr> imageFile = None, imageUrl = None,
      imageBase64 = Some (str ''iVBORw0KGgo=''), foodName = None, ingredients = None,
      mediaType = Some (str ''image/png'') \<rparr>"

definition ex_data_url_task :: FoodValidationTask where
  "ex_data_url_task = \<lparr> imageFile = None, imageUrl = None,
      imageBase64 = Some (str ''data:image/png;base64,iVBORw0KGgo=''), foodName = None,
      ingredients = None, mediaType = Some (str ''image/jpeg'') \<rparr>"

definition ex_charset_task :: FoodValidationTask where
  "ex_charset_task = \<lparr> imageFile = None, imageUrl = None,
      imageBase64 = Some (str ''data:image/png;charset=utf-8;base64,iVBORw0KGgo=''),
      foodName = None, ingredients = None, mediaType = None \<rparr>"

definition ex_wrapped_task :: FoodValidationTask where
  "ex_wrapped_task = \<lparr> imageFile = None, imageUrl = None,
      imageBase64 = Some (str ''data:image/png;base64,iVBO\<newline>Rw0KGgo=''),
      foodName = None, ingredients = None, mediaType = None \<rparr>"

definition ex_all_three_task :: FoodValidationTask where
  "ex_all_three_task = \<lparr> imageFile = Some [0x89, 0x50, 0x4E, 0x47],
      imageUrl = Some (str ''https://example.com/chips.jpg''),
      imageBase64 = Some (str ''iVBORw0KGgo=''), foodName = None, ingredients = None,
      mediaType = None \<rparr>"

text \<open>
  Requests: a form without any image field, a form with an uploaded file, and a
  request whose body is no form, so that \<open>c.req.formData()\<close> throws a \<open>TypeError\<close>.
\<close>

definition ex_form_no_image :: form_data where
  "ex_form_no_image = \<lparr> form_image = None, form_imageUrl = None, form_imageBase64 = None,
      form_foodName = Some (str ''Potato Chips''), form_ingredients = None \<rparr>"

definition ex_request_no_image :: request_env where
  "ex_request_no_image = \<lparr> formData = Inr ex_form_no_image, broker_add = Inr (str ''2''),
      added_at = 1001, req_start = 1000, req_end = 1002 \<rparr>"

definition ex_request_no_form :: request_env where
  "ex_request_no_form =
     \<lparr> formData = Inl (ErrorObj (str ''TypeError'')
                   (str ''Request.formData: Could not parse content as FormData.'')),
       broker_add = Inr (str ''2''), added_at = 1001, req_start = 1000, req_end = 1002 \<rparr>"

definition ex_upload :: upload where
  "ex_upload = \<lparr> upload_name = str ''chips.png'', upload_type = str ''image/png'',
                 upload_bytes = [0x89, 0x50, 0x4E, 0x47] \<rparr>"

definition ex_form_upload :: form_data where
  "ex_form_upload = \<lparr> form_image = Some ex_upload, form_imageUrl = None,
      form_imageBase64 = None, form_foodName = Some (str ''Potato Chips''),
      form_ingredients = None \<rparr>"

definition ex_request_upload :: request_env where
  "ex_request_upload = \<lparr> formData = Inr ex_form_upload, broker_add = Inr (str ''2''),
      added_at = 1001, req_start = 1000, req_end = 1002 \<rparr>"

definition ex_uploaded_job :: job_record where
  "ex_uploaded_job =
     \<lparr> job_id = str ''2'',
       job_data = \<lparr> imageFile = None, imageUrl = None, imageBase64 = Some (str ''iVBORw==''),
                    foodName = Some (str ''Potato Chips''), ingredients = Some [],
                    mediaType = Some (str ''image/png'') \<rparr>,
       opts = gateway_opts, job_state = Waiting, progress = 0, timestamp = 1001,
       processedOn = None, finishedOn = None, attemptsMade = 0, returnvalue = None,
       failedReason = None \<rparr>"

section \<open>Strings\<close>

lemma starts_with_append: "starts_with p (p @ s)"
  by (simp add: starts_with_def)

section \<open>The handler never throws\<close>

lemma worker_handler_eq:
  "worker_handler rt env jid d =
     (case process_body rt env (or_default (Some jid) (str ''unknown'')) d of
        Inr r \<Rightarrow> Inr r
      | Inl e \<Rightarrow>
          Inr \<lparr> taskId = or_default (Some jid) (str ''unknown''), status = ResFailed,
                result = None, error = Some (message_or e (str ''Unknown error'')),
                processingTime = endTime env - startTime env, completedAt = endIso env \<rparr>)"
  by (simp add: worker_handler_def processFoodValidation_def Let_def split: sum.split)

lemma worker_handler_returns: "\<exists>r. worker_handler rt env jid d = Inr r"
  by (simp add: worker_handler_eq split: sum.split)

text \<open>
  C1 (the code at the failing input). The claim is that an error of the adapter, a
  failed model call or a reply that does not parse, leaves the handler of the worker
  as an exception, for the queue to retry. In the code the outer \<open>catch\<close> of
  \<open>processFoodValidation\<close> returns a result record of status \<open>failed\<close> with the message
  of the error, so the \<open>catch\<close> of the worker is never entered and the handler returns
  normally.
\<close>

theorem C1_handler_returns_on_adapter_error:
  "process_body rt env (or_default (Some jid) (str ''unknown'')) d = Inl e \<Longrightarrow>
   worker_handler rt env jid d =
     Inr \<lparr> taskId = or_default (Some jid) (str ''unknown''), status = ResFailed,
           result = None, error = Some (message_or e (str ''Unknown error'')),
           processingTime = endTime env - startTime env, completedAt = endIso env \<rparr>"
  by (simp add: worker_handler_eq)

theorem C1_witness:
  "process_body ex_runtime ex_env_fail (or_default (Some (str ''1'')) (str ''unknown'')) ex_task
     = Inl (ErrorObj (str ''APICallError'') (str ''Too Many Requests''))
   \<and> worker_handler ex_runtime ex_env_fail (str ''1'') ex_task =
     Inr \<lparr> taskId = str ''1'', status = ResFailed, result = None,
           error = Some (str ''Too Many Requests''), processingTime = 200,
           completedAt = str ''2025-01-01T00:00:01.200Z'' \<rparr>"
proof -
  have h: "process_body ex_runtime ex_env_fail (or_default (Some (str ''1'')) (str ''unknown'')) ex_task
     = Inl (ErrorObj (str ''APICallError'') (str ''Too Many Requests''))"
    by (simp add: process_body_def ex_env_fail_def)
  from C1_handler_returns_on_adapter_error [OF h] h show ?thesis
    by (simp add: ex_env_fail_def str_def)
qed

section \<open>The attempts of a job\<close>

lemma run_job_terminal: "terminal j \<Longrightarrow> run_job h envs j = j"
  by (simp add: run_job.simps)

lemma run_job_step:
  "\<not> terminal j \<Longrightarrow>
   run_job h envs j = run_job h envs (run_attempt h (envs (attemptsMade j)) j)"
  by (subst run_job.simps) simp

lemma run_attempt_returned:
  "h env (job_id j) (job_data j) = Inr r \<Longrightarrow>
   run_attempt h env j =
     j\<lparr> job_state := Completed, processedOn := Some (startTime env),
        returnvalue := Some r, finishedOn := Some (endTime env) \<rparr>"
  by (simp add: run_attempt_def settle_attempt_def)

text \<open>A job whose handler returns is completed by that one attempt.\<close>

lemma run_job_returned:
  assumes "\<not> terminal j"
    and "h (envs (attemptsMade j)) (job_id j) (job_data j) = Inr r"
  shows "run_job h envs j =
     j\<lparr> job_state := Completed, processedOn := Some (startTime (envs (attemptsMade j))),
        returnvalue := Some r, finishedOn := Some (endTime (envs (attemptsMade j))) \<rparr>"
proof -
  let ?env = "envs (attemptsMade j)"
  have att: "run_attempt h ?env j =
     j\<lparr> job_state := Completed, processedOn := Some (startTime ?env),
        returnvalue := Some r, finishedOn := Some (endTime ?env) \<rparr>"
    using assms(2) by (rule run_attempt_returned)
  then have "terminal (run_attempt h ?env j)"
    by (simp add: terminal_def)
  then have "run_job h envs (run_attempt h ?env j) = run_attempt h ?env j"
    by (rule run_job_terminal)
  with run_job_step [OF assms(1), of h envs] att show ?thesis by simp
qed

text \<open>
  The queue does what the spec says of it when the handler does throw: a job whose
  handler throws at every attempt ends \<open>failed\<close> with the attempt counter at its bound.
\<close>

lemma run_job_throwing:
  assumes "\<And>env jid d. \<exists>e. h env jid d = Inl e"
  shows "\<not> terminal j \<Longrightarrow> attemptsMade j < attempts (opts j) \<Longrightarrow>
         job_state (run_job h envs j) = Failed
         \<and> attemptsMade (run_job h envs j) = attempts (opts j)"
proof (induction "attempts (opts j) - attemptsMade j" arbitrary: j)
  case 0
  then show ?case by simp
next
  case (Suc n)
  obtain e where e: "h (envs (attemptsMade j)) (job_id j) (job_data j) = Inl e"
    using assms by blast
  let ?j' = "run_attempt h (envs (attemptsMade j)) j"
  have step: "run_job h envs j = run_job h envs ?j'"
    using Suc.prems(1) by (rule run_job_step)
  show ?case
  proof (cases "Suc (attemptsMade j) < attempts (opts j)")
    case True
    then have j': "\<not> terminal ?j'" "attemptsMade ?j' = Suc (attemptsMade j)"
        "opts ?j' = opts j"
      using e by (simp_all add: run_attempt_def settle_attempt_def terminal_def)
    have "n = attempts (opts ?j') - attemptsMade ?j'"
      using Suc.hyps(2) j' by simp
    from Suc.hyps(1) [OF this j'(1)] True j' show ?thesis
      by (simp add: step)
  next
    case False
    then have j': "job_state ?j' = Failed" "attemptsMade ?j' = Suc (attemptsMade j)"
        "opts ?j' = opts j"
      using e by (simp_all add: run_attempt_def settle_attempt_def)
    have "run_job h envs ?j' = ?j'"
      by (rule run_job_terminal) (simp add: terminal_def j'(1))
    with False Suc.prems(2) j' show ?thesis
      by (simp add: step)
  qed
qed

text \<open>
  C2 (the code at the failing input). The claim is that a task whose adapter call
  fails at every attempt ends in the queue state \<open>failed\<close> with \<open>attemptsMade\<close> equal to
  the bound. With the handler of the source the first attempt already returns, so the
  job ends \<open>completed\<close>, its attempt counter is what it was (0 for a new job), and its
  return value is a result record of status \<open>failed\<close>.
\<close>

theorem C2_failing_adapter_job_is_completed:
  assumes "\<not> terminal j"
    and "\<And>k. \<exists>e. process_body rt (envs k)
            (or_default (Some (job_id j)) (str ''unknown'')) (job_data j) = Inl e"
  shows "job_state (run_job (worker_handler rt) envs j) = Completed
         \<and> attemptsMade (run_job (worker_handler rt) envs j) = attemptsMade j
         \<and> (\<exists>r. returnvalue (run_job (worker_handler rt) envs j) = Some r
                \<and> status r = ResFailed)"
proof -
  obtain e where
    "process_body rt (envs (attemptsMade j))
       (or_default (Some (job_id j)) (str ''unknown'')) (job_data j) = Inl e"
    using assms(2) by blast
  then obtain r
    where r: "worker_handler rt (envs (attemptsMade j)) (job_id j) (job_data j) = Inr r"
      and "status r = ResFailed"
    by (simp add: worker_handler_eq)
  with run_job_returned [of j "worker_handler rt" envs r] assms(1) show ?thesis by simp
qed

theorem C2_witness:
  "\<not> terminal ex_job
   \<and> process_body ex_runtime ex_env_fail
        (or_default (Some (job_id ex_job)) (str ''unknown'')) (job_data ex_job)
       = Inl (ErrorObj (str ''APICallError'') (str ''Too Many Requests''))
   \<and> attempts (opts ex_job) = 3
   \<and> job_state (run_job (worker_handler ex_runtime) (\<lambda>k. ex_env_fail) ex_job) = Completed
   \<and> attemptsMade (run_job (worker_handler ex_runtime) (\<lambda>k. ex_env_fail) ex_job) = 0"
proof -
  have t: "\<not> terminal ex_job"
    by (simp add: terminal_def ex_job_def)
  have f: "process_body ex_runtime ex_env_fail
        (or_default (Some (job_id ex_job)) (str ''unknown'')) (job_data ex_job)
       = Inl (ErrorObj (str ''APICallError'') (str ''Too Many Requests''))"
    by (simp add: process_body_def ex_env_fail_def)
  then have "\<And>k. \<exists>e. process_body ex_runtime ((\<lambda>k. ex_env_fail) k)
        (or_default (Some (job_id ex_job)) (str ''unknown'')) (job_data ex_job) = Inl e"
    by simp
  from C2_failing_adapter_job_is_completed [OF t this] t f show ?thesis
    by (simp add: ex_job_def gateway_opts_def)
qed

section \<open>A reply that parses\<close>

lemma classification_not_null: "is_classification_result j \<Longrightarrow> j \<noteq> JNull"
  by (auto simp: is_classification_result_def)

lemma parse_reply_ok:
  "json_parse rt (clean_response reply) = Inr j \<Longrightarrow> j \<noteq> JNull \<Longrightarrow>
   parse_reply rt reply = Inr j"
  by (simp add: parse_reply_def)

lemma worker_handler_completed:
  assumes "generateText env (user_content d) = Inr reply"
    and "parse_reply rt reply = Inr j"
  shows "worker_handler rt env jid d =
     Inr \<lparr> taskId = or_default (Some jid) (str ''unknown''), status = ResCompleted,
           result = Some j, error = None,
           processingTime = endTime env - startTime env, completedAt = endIso env \<rparr>"
  using assms by (simp add: worker_handler_eq process_body_def)

lemma getJob_map:
  assumes "\<And>j. job_id (f j) = job_id j"
  shows "getJob (map f q) tid = map_option f (getJob q tid)"
  by (induction q) (simp_all add: getJob_def assms)

lemma job_id_run_attempt: "job_id (run_attempt h env j) = job_id j"
  by (simp add: run_attempt_def settle_attempt_def split: sum.split)

lemma job_id_run_job: "job_id (run_job h envs j) = job_id j"
proof (induction h envs j rule: run_job.induct)
  case (1 h envs j)
  show ?case
  proof (cases "terminal j")
    case True
    then show ?thesis by (simp add: run_job_terminal)
  next
    case False
    with 1 show ?thesis by (simp add: run_job_step job_id_run_attempt)
  qed
qed

lemma getJob_job_id: "getJob q tid = Some j \<Longrightarrow> job_id j = tid"
  by (induction q) (auto simp: getJob_def split: if_splits)

lemma getJob_process_job:
  assumes "getJob q tid = Some job"
  shows "getJob (process_job rt envs tid q) tid = Some (run_job (worker_handler rt) envs job)"
proof -
  have "getJob (process_job rt envs tid q) tid
      = map_option (\<lambda>j. if job_id j = tid then run_job (worker_handler rt) envs j else j)
          (getJob q tid)"
    unfolding process_job_def by (rule getJob_map) (simp add: job_id_run_job)
  with assms getJob_job_id [OF assms] show ?thesis by simp
qed

lemma status_body_completed:
  assumes "job_state job = Completed" and "returnvalue job = Some r"
  shows "field (str ''status'') (status_body rt q tid job) = Some (jstr ''completed'')"
    and "field (str ''result'') (status_body rt q tid job) = result r"
  using assms
  by (cases "processedOn job"; cases "finishedOn job"; cases "result r";
      simp add: status_body_def str_def map_add_def)+

text \<open>
  Whatever the cleaning of the reply does: when the cleaned reply parses to a value of
  the Classification Result shape, the job ends \<open>completed\<close> and the status endpoint
  answers with that value.
\<close>

lemma cleaned_reply_is_returned:
  assumes "getJob q tid = Some job" and "\<not> terminal job"
    and "generateText (envs (attemptsMade job)) (user_content (job_data job)) = Inr reply"
    and "json_parse rt (clean_response reply) = Inr j"
    and "is_classification_result j"
  shows "\<exists>job'. getJob (process_job rt envs tid q) tid = Some job'
           \<and> job_state job' = Completed
           \<and> code (task_status rt None (process_job rt envs tid q) tid) = 200
           \<and> field (str ''status'') (body (task_status rt None (process_job rt envs tid q) tid))
               = Some (jstr ''completed'')
           \<and> field (str ''result'') (body (task_status rt None (process_job rt envs tid q) tid))
               = Some j"
proof -
  let ?env = "envs (attemptsMade job)"
  let ?job' = "run_job (worker_handler rt) envs job"
  let ?r = "\<lparr> taskId = or_default (Some (job_id job)) (str ''unknown''), status = ResCompleted,
           result = Some j, error = None,
           processingTime = endTime ?env - startTime ?env, completedAt = endIso ?env \<rparr>"
  have "parse_reply rt reply = Inr j"
    using assms(4,5) by (simp add: parse_reply_ok classification_not_null)
  with assms(3) have "worker_handler rt ?env (job_id job) (job_data job) = Inr ?r"
    by (rule worker_handler_completed)
  with assms(2) have job': "?job' =
     job\<lparr> job_state := Completed, processedOn := Some (startTime ?env),
        returnvalue := Some ?r, finishedOn := Some (endTime ?env) \<rparr>"
    by (rule run_job_returned)
  have found: "getJob (process_job rt envs tid q) tid = Some ?job'"
    using assms(1) by (rule getJob_process_job)
  have st: "job_state ?job' = Completed" and rv: "returnvalue ?job' = Some ?r"
    by (simp_all add: job')
  have "task_status rt None (process_job rt envs tid q) tid
      = \<lparr> code = 200, body = status_body rt (process_job rt envs tid q) tid ?job' \<rparr>"
    by (simp add: task_status_def found)
  with found st status_body_completed [OF st rv] show ?thesis
    by simp
qed

subsection \<open>What the cleaning of the reply removes\<close>

lemma dropWhile_spaces:
  "list_all is_space ws \<Longrightarrow> \<not> is_space c \<Longrightarrow> dropWhile is_space (ws @ c # xs) = c # xs"
  by (induction ws) simp_all

lemma trim_end_spaces:
  assumes "list_all is_space ws" and "\<not> is_space c"
  shows "trim_end (xs @ c # ws) = xs @ [c]"
proof -
  have "list_all is_space (rev ws)"
    using assms(1) by (simp add: list_all_iff)
  then have "dropWhile is_space (rev ws @ c # rev xs) = c # rev xs"
    using assms(2) by (rule dropWhile_spaces)
  then show ?thesis by (simp add: trim_end_def)
qed

lemma trim_framed:
  assumes "list_all is_space ws1" and "list_all is_space ws2"
    and "\<not> is_space a" and "\<not> is_space b"
  shows "trim (ws1 @ a # xs @ b # ws2) = a # xs @ [b]"
proof -
  have "dropWhile is_space (ws1 @ a # xs @ b # ws2) = a # xs @ b # ws2"
    using assms(1,3) by (rule dropWhile_spaces)
  moreover have "trim_end ((a # xs) @ b # ws2) = (a # xs) @ [b]"
    using assms(2,4) by (rule trim_end_spaces)
  ultimately show ?thesis by (simp add: trim_def)
qed

lemma not_space_fence: "\<not> is_space 96" "\<not> is_space 123" "\<not> is_space 125"
  by (simp_all add: is_space_def)

lemma strip_closing_fence_closed:
  assumes "list_all is_space ws" and "\<not> is_space c"
  shows "strip_closing_fence (xs @ c # ws @ str ''```'') = xs @ [c]"
proof -
  have len: "length (str ''```'') = 3"
    by (simp add: str_def)
  have "ends_with (str ''```'') (xs @ c # ws @ str ''```'')"
    by (simp add: ends_with_def len)
  moreover have "take (length (xs @ c # ws @ str ''```'') - 3) (xs @ c # ws @ str ''```'')
      = xs @ c # ws"
    by (simp add: len)
  ultimately show ?thesis
    by (simp add: strip_closing_fence_def trim_end_spaces [OF assms])
qed

text \<open>
  The text of a JSON object, \<open>{\<close> to \<open>}\<close>, comes out of the cleaning as it is when it
  stands alone, inside a fence opened by \<open>```json\<close>, or inside a fence opened by \<open>```\<close>,
  with nothing but white space around the text and the fence.
\<close>

lemma clean_response_plain:
  assumes "list_all is_space ws1" and "list_all is_space ws4"
  shows "clean_response (ws1 @ (123 # mid @ [125]) @ ws4) = 123 # mid @ [125]"
proof -
  have "trim (ws1 @ 123 # mid @ 125 # ws4) = 123 # mid @ [125]"
    using assms not_space_fence(2,3) by (rule trim_framed)
  then show ?thesis
    by (simp add: clean_response_def starts_with_def str_def)
qed

lemma clean_response_json_fence:
  assumes "list_all is_space ws1" and "list_all is_space ws2"
    and "list_all is_space ws3" and "list_all is_space ws4"
  shows "clean_response
     (ws1 @ str ''```json'' @ ws2 @ (123 # mid @ [125]) @ ws3 @ str ''```'' @ ws4)
     = 123 # mid @ [125]"
proof -
  let ?inner = "ws2 @ 123 # mid @ 125 # ws3 @ str ''```''"
  have "trim (ws1 @ 96 # ([96, 96, 106, 115, 111, 110] @ ws2 @ 123 # mid @ 125 # ws3 @ [96, 96])
          @ 96 # ws4)
      = 96 # ([96, 96, 106, 115, 111, 110] @ ws2 @ 123 # mid @ 125 # ws3 @ [96, 96]) @ [96]"
    using assms(1,4) not_space_fence(1,1) by (rule trim_framed)
  then have t: "trim (ws1 @ str ''```json'' @ ws2 @ (123 # mid @ [125]) @ ws3 @ str ''```'' @ ws4)
      = str ''```json'' @ ?inner"
    by (simp add: str_def)
  have d: "dropWhile is_space ?inner = 123 # mid @ 125 # ws3 @ str ''```''"
    using assms(2) not_space_fence(2) by (rule dropWhile_spaces)
  have c: "strip_closing_fence ((123 # mid) @ 125 # ws3 @ str ''```'') = (123 # mid) @ [125]"
    using assms(3) not_space_fence(3) by (rule strip_closing_fence_closed)
  have l: "length (str ''```json'') = 7"
    by (simp add: str_def)
  show ?thesis
    unfolding clean_response_def t using d c
    by (simp add: starts_with_append l)
qed

lemma clean_response_bare_fence:
  assumes "list_all is_space ws1" and "list_all is_space ws2"
    and "list_all is_space ws3" and "list_all is_space ws4"
  shows "clean_response
     (ws1 @ str ''```'' @ ws2 @ (123 # mid @ [125]) @ ws3 @ str ''```'' @ ws4)
     = 123 # mid @ [125]"
proof -
  let ?inner = "ws2 @ 123 # mid @ 125 # ws3 @ str ''```''"
  have "trim (ws1 @ 96 # ([96, 96] @ ws2 @ 123 # mid @ 125 # ws3 @ [96, 96]) @ 96 # ws4)
      = 96 # ([96, 96] @ ws2 @ 123 # mid @ 125 # ws3 @ [96, 96]) @ [96]"
    using assms(1,4) not_space_fence(1,1) by (rule trim_framed)
  then have t: "trim (ws1 @ str ''```'' @ ws2 @ (123 # mid @ [125]) @ ws3 @ str ''```'' @ ws4)
      = str ''```'' @ ?inner"
    by (simp add: str_def)
  have "\<not> is_space 106"
    by (simp add: is_space_def)
  with assms(2) have "hd ?inner \<noteq> 106"
    by (cases ws2) auto
  moreover have "?inner \<noteq> []"
    by simp
  ultimately have n: "\<not> starts_with (str ''```json'') (str ''```'' @ ?inner)"
    by (cases ?inner) (auto simp: starts_with_def str_def)
  have d: "dropWhile is_space ?inner = 123 # mid @ 125 # ws3 @ str ''```''"
    using assms(2) not_space_fence(2) by (rule dropWhile_spaces)
  have c: "strip_closing_fence ((123 # mid) @ 125 # ws3 @ str ''```'') = (123 # mid) @ [125]"
    using assms(3) not_space_fence(3) by (rule strip_closing_fence_closed)
  have l: "length (str ''```'') = 3"
    by (simp add: str_def)
  show ?thesis
    unfolding clean_response_def t using n d c
    by (simp add: starts_with_append l)
qed

text \<open>
  C3, as amended. A task whose model call replies with the JSON text of an object,
  alone or inside a code fence that is opened by \<open>```json\<close> or by \<open>```\<close> and closed by
  \<open>```\<close>, with nothing but white space around the text and around the fence, and whose
  JSON text parses to a value \<open>j\<close> of the Classification Result shape, ends \<open>completed\<close>
  when the worker has processed it, and the status endpoint then answers 200 with
  status \<open>completed\<close> and with \<open>j\<close> itself as its \<open>result\<close>.
\<close>

theorem C3_fenced_reply_is_returned:
  assumes "getJob q tid = Some job" and "\<not> terminal job"
    and "generateText (envs (attemptsMade job)) (user_content (job_data job)) = Inr reply"
    and "reply = ws1 @ jtext @ ws4
         \<or> reply = ws1 @ str ''```json'' @ ws2 @ jtext @ ws3 @ str ''```'' @ ws4
         \<or> reply = ws1 @ str ''```'' @ ws2 @ jtext @ ws3 @ str ''```'' @ ws4"
    and "list_all is_space ws1" and "list_all is_space ws2"
    and "list_all is_space ws3" and "list_all is_space ws4"
    and "jtext = 123 # mid @ [125]"
    and "json_parse rt jtext = Inr j"
    and "is_classification_result j"
  shows "\<exists>job'. getJob (process_job rt envs tid q) tid = Some job'
           \<and> job_state job' = Completed
           \<and> code (task_status rt None (process_job rt envs tid q) tid) = 200
           \<and> field (str ''status'') (body (task_status rt None (process_job rt envs tid q) tid))
               = Some (jstr ''completed'')
           \<and> field (str ''result'') (body (task_status rt None (process_job rt envs tid q) tid))
               = Some j"
proof -
  have "clean_response reply = jtext"
    using assms(4)
  proof (elim disjE)
    assume "reply = ws1 @ jtext @ ws4"
    then show ?thesis
      using clean_response_plain [OF assms(5,8)] assms(9) by simp
  next
    assume "reply = ws1 @ str ''```json'' @ ws2 @ jtext @ ws3 @ str ''```'' @ ws4"
    then show ?thesis
      using clean_response_json_fence [OF assms(5-8)] assms(9) by simp
  next
    assume "reply = ws1 @ str ''```'' @ ws2 @ jtext @ ws3 @ str ''```'' @ ws4"
    then show ?thesis
      using clean_response_bare_fence [OF assms(5-8)] assms(9) by simp
  qed
  with assms(10) have "json_parse rt (clean_response reply) = Inr j"
    by simp
  with assms(1-3) show ?thesis
    using assms(11) by (rule cleaned_reply_is_returned)
qed

lemma ex_json_text_object: "ex_json_text = 123 # butlast (tl ex_json_text) @ [125]"
  by (simp add: ex_json_text_def str_def)

lemma ex_result_shape: "is_classification_result ex_result"
  by (simp add: is_classification_result_def ex_result_def jstr_def str_def)

theorem C3_witness:
  "getJob [ex_job] (str ''1'') = Some ex_job
   \<and> \<not> terminal ex_job
   \<and> generateText ex_env_ok (user_content (job_data ex_job)) = Inr ex_reply
   \<and> ex_reply = [] @ str ''```json'' @ [10] @ ex_json_text @ [10] @ str ''```'' @ [10]
   \<and> list_all is_space [10]
   \<and> ex_json_text = 123 # butlast (tl ex_json_text) @ [125]
   \<and> json_parse ex_runtime ex_json_text = Inr ex_result
   \<and> is_classification_result ex_result
   \<and> code (task_status ex_runtime None
        (process_job ex_runtime (\<lambda>k. ex_env_ok) (str ''1'') [ex_job]) (str ''1'')) = 200
   \<and> field (str ''result'') (body (task_status ex_runtime None
        (process_job ex_runtime (\<lambda>k. ex_env_ok) (str ''1'') [ex_job]) (str ''1'')))
      = Some ex_result"
proof -
  have h1: "getJob [ex_job] (str ''1'') = Some ex_job"
    by (simp add: getJob_def ex_job_def)
  have h2: "\<not> terminal ex_job"
    by (simp add: terminal_def ex_job_def)
  have h3: "generateText ((\<lambda>k. ex_env_ok) (attemptsMade ex_job)) (user_content (job_data ex_job))
      = Inr ex_reply"
    by (simp add: ex_env_ok_def)
  have h4: "ex_reply = [] @ str ''```json'' @ [10] @ ex_json_text @ [10] @ str ''```'' @ [10]"
    by (simp add: ex_reply_def str_def)
  then have h4': "ex_reply = [] @ ex_json_text @ [10]
         \<or> ex_reply = [] @ str ''```json'' @ [10] @ ex_json_text @ [10] @ str ''```'' @ [10]
         \<or> ex_reply = [] @ str ''```'' @ [10] @ ex_json_text @ [10] @ str ''```'' @ [10]"
    by (rule disjI1 [THEN disjI2])
  have h5: "list_all is_space []" and h6: "list_all is_space [10]"
    by (simp_all add: is_space_def)
  have h10: "json_parse ex_runtime ex_json_text = Inr ex_result"
    by (simp add: ex_runtime_def)
  from C3_fenced_reply_is_returned
    [OF h1 h2 h3 h4' h5 h6 h6 h6 ex_json_text_object h10 ex_result_shape]
    h1 h2 h3 h4 h6 ex_json_text_object h10 ex_result_shape
  show ?thesis by auto
qed

text \<open>
  The claim of C3 as it was stated fails on a fence that the cleaning does not remove.
  The reply is the same well-formed JSON text inside a fence opened by \<open>```JSON\<close>: the
  cleaning leaves \<open>JSON\<close> and a line break before the text, the parser rejects that, and
  the status endpoint answers without a \<open>result\<close>.
\<close>

theorem C3_counterexample:
  "json_parse ex_runtime ex_json_text = Inr ex_result
   \<and> is_classification_result ex_result
   \<and> ex_upper_reply = str ''```JSON\<newline>'' @ ex_json_text @ str ''\<newline>```''
   \<and> generateText ex_env_upper (user_content (job_data ex_job)) = Inr ex_upper_reply
   \<and> clean_response ex_upper_reply = str ''JSON\<newline>'' @ ex_json_text
   \<and> field (str ''result'') (body (task_status ex_runtime None
        (process_job ex_runtime (\<lambda>k. ex_env_upper) (str ''1'') [ex_job]) (str ''1'')))
      = None"
proof -
  have c: "clean_response ex_upper_reply = str ''JSON\<newline>'' @ ex_json_text"
    by (simp add: clean_response_def ex_upper_reply_def ex_json_text_def trim_def trim_end_def
        strip_closing_fence_def starts_with_def ends_with_def is_space_def str_def Let_def)
  have p: "json_parse ex_runtime (str ''JSON\<newline>'' @ ex_json_text)
      = Inl (v8_unexpected_token (str ''JSON\<newline>'' @ ex_json_text))"
    by (simp add: ex_runtime_def ex_json_text_def str_def)
  have g: "generateText ex_env_upper (user_content (job_data ex_job)) = Inr ex_upper_reply"
    by (simp add: ex_env_upper_def)
  obtain r where r: "worker_handler ex_runtime ((\<lambda>k. ex_env_upper) (attemptsMade ex_job))
        (job_id ex_job) (job_data ex_job) = Inr r" and "result r = None"
    using g by (simp add: worker_handler_eq process_body_def parse_reply_def c p)
  have t: "\<not> terminal ex_job"
    by (simp add: terminal_def ex_job_def)
  let ?job' = "run_job (worker_handler ex_runtime) (\<lambda>k. ex_env_upper) ex_job"
  have st: "job_state ?job' = Completed" and rv: "returnvalue ?job' = Some r"
    using run_job_returned [of ex_job "worker_handler ex_runtime" "\<lambda>k. ex_env_upper" r] t r
    by simp_all
  have "getJob [ex_job] (str ''1'') = Some ex_job"
    by (simp add: getJob_def ex_job_def)
  then have "getJob (process_job ex_runtime (\<lambda>k. ex_env_upper) (str ''1'') [ex_job]) (str ''1'')
      = Some ?job'"
    by (rule getJob_process_job)
  then have "body (task_status ex_runtime None
        (process_job ex_runtime (\<lambda>k. ex_env_upper) (str ''1'') [ex_job]) (str ''1''))
      = status_body ex_runtime
          (process_job ex_runtime (\<lambda>k. ex_env_upper) (str ''1'') [ex_job]) (str ''1'') ?job'"
    by (simp add: task_status_def)
  with status_body_completed(2) [OF st rv] \<open>result r = None\<close> c g ex_result_shape
  show ?thesis
    by (simp add: ex_runtime_def ex_upper_reply_def)
qed

section \<open>The image of the request\<close>

lemma match_data_url_form:
  assumes "mt \<noteq> []" and "59 \<notin> set mt" and "dat \<noteq> []"
    and "\<not> list_ex is_line_terminator dat"
  shows "match_data_url (str ''data:'' @ mt @ str '';base64,'' @ dat) = Some (mt, dat)"
proof -
  let ?rest = "mt @ str '';base64,'' @ dat"
  have tw: "takeWhile (\<lambda>c. c \<noteq> 59) ?rest = mt"
    using assms(2) by (subst takeWhile_append2) (auto simp: str_def)
  have dw: "dropWhile (\<lambda>c. c \<noteq> 59) ?rest = str '';base64,'' @ dat"
    using assms(2) by (subst dropWhile_append2) (auto simp: str_def)
  have len: "length (str ''data:'') = 5" "length (str '';base64,'') = 8"
    by (simp_all add: str_def)
  show ?thesis
    unfolding match_data_url_def
    using assms(1,3,4) by (simp add: starts_with_append tw dw Let_def len)
qed

text \<open>
  C4, as amended. When the base64 branch is reached (no raw bytes, no URL): for an
  \<open>imageBase64\<close> of the form \<open>data:<mediatype>;base64,<data>\<close> whose media type is not
  empty and has no semicolon and whose data is not empty and has no line terminator,
  the file part has the media type \<open><mediatype>\<close> and is decoded from exactly \<open><data>\<close>;
  for an \<open>imageBase64\<close> that does not start with \<open>data:\<close>, the string is decoded as
  given, and the media type is the \<open>mediaType\<close> of the task if it has one and
  \<open>image/jpeg\<close> otherwise.
\<close>

theorem C4_base64_normalization:
  assumes "imageFile d = None" and "\<not> truthy (imageUrl d)"
  shows "(mt \<noteq> [] \<and> 59 \<notin> set mt \<and> dat \<noteq> [] \<and> \<not> list_ex is_line_terminator dat
          \<and> imageBase64 d = Some (str ''data:'' @ mt @ str '';base64,'' @ dat)
          \<longrightarrow> image_part d = Some (FilePart (FromBase64 dat) mt))
       \<and> (s \<noteq> [] \<and> \<not> starts_with (str ''data:'') s \<and> imageBase64 d = Some s
          \<longrightarrow> image_part d
               = Some (FilePart (FromBase64 s) (or_default (mediaType d) (str ''image/jpeg''))))"
proof (intro conjI impI)
  assume a: "mt \<noteq> [] \<and> 59 \<notin> set mt \<and> dat \<noteq> [] \<and> \<not> list_ex is_line_terminator dat
          \<and> imageBase64 d = Some (str ''data:'' @ mt @ str '';base64,'' @ dat)"
  then have m: "match_data_url (str ''data:'' @ mt @ str '';base64,'' @ dat) = Some (mt, dat)"
    by (simp add: match_data_url_form)
  have "str ''data:'' @ mt @ str '';base64,'' @ dat \<noteq> []"
    by (simp add: str_def)
  with a m assms show "image_part d = Some (FilePart (FromBase64 dat) mt)"
    by (simp add: image_part_def normalize_base64_def starts_with_append)
next
  assume "s \<noteq> [] \<and> \<not> starts_with (str ''data:'') s \<and> imageBase64 d = Some s"
  with assms show "image_part d
      = Some (FilePart (FromBase64 s) (or_default (mediaType d) (str ''image/jpeg'')))"
    by (simp add: image_part_def normalize_base64_def default_media_type_def)
qed

theorem C4_witness:
  "imageFile ex_data_url_task = None \<and> \<not> truthy (imageUrl ex_data_url_task)
   \<and> imageBase64 ex_data_url_task
       = Some (str ''data:'' @ str ''image/png'' @ str '';base64,'' @ str ''iVBORw0KGgo='')
   \<and> 59 \<notin> set (str ''image/png'') \<and> \<not> list_ex is_line_terminator (str ''iVBORw0KGgo='')
   \<and> image_part ex_data_url_task
       = Some (FilePart (FromBase64 (str ''iVBORw0KGgo='')) (str ''image/png''))
   \<and> imageFile ex_task = None \<and> \<not> truthy (imageUrl ex_task)
   \<and> imageBase64 ex_task = Some (str ''iVBORw0KGgo='')
   \<and> \<not> starts_with (str ''data:'') (str ''iVBORw0KGgo='')
   \<and> image_part ex_task = Some (FilePart (FromBase64 (str ''iVBORw0KGgo='')) (str ''image/jpeg''))"
proof -
  have h1: "imageFile ex_data_url_task = None" "\<not> truthy (imageUrl ex_data_url_task)"
    by (simp_all add: ex_data_url_task_def)
  have a1: "str ''image/png'' \<noteq> [] \<and> 59 \<notin> set (str ''image/png'')
      \<and> str ''iVBORw0KGgo='' \<noteq> [] \<and> \<not> list_ex is_line_terminator (str ''iVBORw0KGgo='')
      \<and> imageBase64 ex_data_url_task
          = Some (str ''data:'' @ str ''image/png'' @ str '';base64,'' @ str ''iVBORw0KGgo='')"
    by (simp add: ex_data_url_task_def is_line_terminator_def str_def)
  have h2: "imageFile ex_task = None" "\<not> truthy (imageUrl ex_task)"
    by (simp_all add: ex_task_def)
  have a2: "str ''iVBORw0KGgo='' \<noteq> [] \<and> \<not> starts_with (str ''data:'') (str ''iVBORw0KGgo='')
      \<and> imageBase64 ex_task = Some (str ''iVBORw0KGgo='')"
    by (simp add: ex_task_def starts_with_def str_def)
  have m: "or_default (mediaType ex_task) (str ''image/jpeg'') = str ''image/jpeg''"
    by (simp add: ex_task_def str_def)
  from C4_base64_normalization [OF h1, of "str ''image/png''" "str ''iVBORw0KGgo=''" "[]"]
    C4_base64_normalization [OF h2, of "[]" "[]" "str ''iVBORw0KGgo=''"]
    h1 a1 h2 a2 m
  show ?thesis by simp
qed

text \<open>
  The claim of C4 as it was stated fails. A task with raw base64 and the media type
  \<open>image/png\<close>, as the gateway queues for an uploaded PNG file, gets \<open>image/png\<close> and
  not \<open>image/jpeg\<close>. A data URL whose media type has a parameter, and a data URL whose
  data has a line break, are not matched: the whole string, prefix included, goes to
  the decoder, with \<open>image/jpeg\<close>.
\<close>

theorem C4_counterexample:
  "image_part ex_png_task
     = Some (FilePart (FromBase64 (str ''iVBORw0KGgo='')) (str ''image/png''))
   \<and> image_part ex_png_task
     \<noteq> Some (FilePart (FromBase64 (str ''iVBORw0KGgo='')) (str ''image/jpeg''))
   \<and> image_part ex_charset_task
     = Some (FilePart (FromBase64 (str ''data:image/png;charset=utf-8;base64,iVBORw0KGgo=''))
          (str ''image/jpeg''))
   \<and> image_part ex_charset_task
     \<noteq> Some (FilePart (FromBase64 (str ''iVBORw0KGgo='')) (str ''image/png;charset=utf-8''))
   \<and> image_part ex_wrapped_task
     = Some (FilePart (FromBase64 (str ''data:image/png;base64,iVBO\<newline>Rw0KGgo=''))
          (str ''image/jpeg''))
   \<and> image_part ex_wrapped_task
     \<noteq> Some (FilePart (FromBase64 (str ''iVBO\<newline>Rw0KGgo='')) (str ''image/png''))"
  by (simp add: image_part_def normalize_base64_def match_data_url_def starts_with_def
      is_line_terminator_def default_media_type_def ex_png_task_def ex_charset_task_def
      ex_wrapped_task_def str_def Let_def)

text \<open>
  For the form field \<open>imageBase64\<close> itself the gateway sets the media type of the task
  to \<open>image/jpeg\<close>, so a raw base64 string that comes in through that field is sent
  as \<open>image/jpeg\<close>.
\<close>

lemma gateway_base64_field_is_jpeg:
  assumes "form_image fd = None" and "\<not> truthy (form_imageUrl fd)"
    and "form_imageBase64 fd = Some s" and "s \<noteq> []"
    and "\<not> starts_with (str ''data:'') s"
  shows "image_part (build_task rt fd) = Some (FilePart (FromBase64 s) (str ''image/jpeg''))"
  using assms
  by (simp add: build_task_def image_part_def normalize_base64_def default_media_type_def
      str_def)

text \<open>
  C5. Raw bytes come before the URL and the URL before the base64 string. With raw
  bytes in the task the user message is the text and one file part, those bytes, and
  it is the same whatever the URL and base64 fields hold; without raw bytes and with a
  URL it is the text and one file part, the URL, and it is the same whatever the
  base64 field holds; only when both others are absent is the one file part the
  decoded base64 string. That user message, and nothing else of the task, is what the
  model is called with.
\<close>

theorem C5_image_precedence:
  "(imageFile d = Some buf \<longrightarrow>
      user_content d
        = [TextPart (user_text d),
           FilePart (BufferData buf) (or_default (mediaType d) (str ''image/jpeg''))]
      \<and> image_part d
        = Some (FilePart (BufferData buf) (or_default (mediaType d) (str ''image/jpeg'')))
      \<and> user_content (d\<lparr> imageUrl := u, imageBase64 := b \<rparr>) = user_content d)
   \<and> (imageFile d = None \<and> imageUrl d = Some url \<and> url \<noteq> [] \<longrightarrow>
      user_content d
        = [TextPart (user_text d), FilePart (StringData url) (str ''image/jpeg'')]
      \<and> image_part d = Some (FilePart (StringData url) (str ''image/jpeg''))
      \<and> user_content (d\<lparr> imageBase64 := b \<rparr>) = user_content d)
   \<and> (imageFile d = None \<and> \<not> truthy (imageUrl d) \<and> imageBase64 d = Some s \<and> s \<noteq> [] \<longrightarrow>
      user_content d
        = [TextPart (user_text d),
           FilePart (FromBase64 (fst (normalize_base64 s (mediaType d))))
             (snd (normalize_base64 s (mediaType d)))])
   \<and> process_body rt env tid d
       = process_body rt (env\<lparr> generateText := \<lambda>c. generateText env (user_content d) \<rparr>) tid d"
proof (intro conjI impI)
  assume "imageFile d = Some buf"
  then show "user_content d
        = [TextPart (user_text d),
           FilePart (BufferData buf) (or_default (mediaType d) (str ''image/jpeg''))]"
    and "image_part d
        = Some (FilePart (BufferData buf) (or_default (mediaType d) (str ''image/jpeg'')))"
    and "user_content (d\<lparr> imageUrl := u, imageBase64 := b \<rparr>) = user_content d"
    by (simp_all add: user_content_def image_part_def user_text_def default_media_type_def)
next
  assume "imageFile d = None \<and> imageUrl d = Some url \<and> url \<noteq> []"
  then show "user_content d
        = [TextPart (user_text d), FilePart (StringData url) (str ''image/jpeg'')]"
    and "image_part d = Some (FilePart (StringData url) (str ''image/jpeg''))"
    and "user_content (d\<lparr> imageBase64 := b \<rparr>) = user_content d"
    by (simp_all add: user_content_def image_part_def user_text_def default_media_type_def)
next
  assume "imageFile d = None \<and> \<not> truthy (imageUrl d) \<and> imageBase64 d = Some s \<and> s \<noteq> []"
  then show "user_content d
        = [TextPart (user_text d),
           FilePart (FromBase64 (fst (normalize_base64 s (mediaType d))))
             (snd (normalize_base64 s (mediaType d)))]"
    by (simp add: user_content_def image_part_def split: prod.split)
next
  show "process_body rt env tid d
       = process_body rt (env\<lparr> generateText := \<lambda>c. generateText env (user_content d) \<rparr>) tid d"
    by (simp add: process_body_def split: sum.split)
qed

lemma ex_all_three_text:
  "user_text ex_all_three_task
     = str ''Please analyze this food image and determine its compliance with various dietary standards.''"
  by (simp add: user_text_def ex_all_three_task_def)

theorem C5_witness:
  "imageFile ex_all_three_task = Some [0x89, 0x50, 0x4E, 0x47]
   \<and> truthy (imageUrl ex_all_three_task) \<and> truthy (imageBase64 ex_all_three_task)
   \<and> user_content ex_all_three_task
       = [TextPart (str ''Please analyze this food image and determine its compliance with various dietary standards.''),
          FilePart (BufferData [0x89, 0x50, 0x4E, 0x47]) (str ''image/jpeg'')]
   \<and> user_content (ex_all_three_task\<lparr> imageUrl := None, imageBase64 := None \<rparr>)
       = user_content ex_all_three_task
   \<and> imageFile (ex_all_three_task\<lparr> imageFile := None \<rparr>) = None
   \<and> imageUrl (ex_all_three_task\<lparr> imageFile := None \<rparr>)
       = Some (str ''https://example.com/chips.jpg'')
   \<and> user_content (ex_all_three_task\<lparr> imageFile := None \<rparr>)
       = [TextPart (str ''Please analyze this food image and determine its compliance with various dietary standards.''),
          FilePart (StringData (str ''https://example.com/chips.jpg'')) (str ''image/jpeg'')]
   \<and> imageFile ex_png_task = None \<and> \<not> truthy (imageUrl ex_png_task)
   \<and> imageBase64 ex_png_task = Some (str ''iVBORw0KGgo='')
   \<and> user_content ex_png_task
       = [TextPart (str ''Please analyze this food image and determine its compliance with various dietary standards.''),
          FilePart (FromBase64 (str ''iVBORw0KGgo='')) (str ''image/png'')]"
proof -
  have a: "imageFile ex_all_three_task = Some [0x89, 0x50, 0x4E, 0x47]"
    "truthy (imageUrl ex_all_three_task)" "truthy (imageBase64 ex_all_three_task)"
    "or_default (mediaType ex_all_three_task) (str ''image/jpeg'') = str ''image/jpeg''"
    by (simp_all add: ex_all_three_task_def str_def)
  have b: "imageFile (ex_all_three_task\<lparr> imageFile := None \<rparr>) = None"
    "imageUrl (ex_all_three_task\<lparr> imageFile := None \<rparr>)
       = Some (str ''https://example.com/chips.jpg'')"
    "str ''https://example.com/chips.jpg'' \<noteq> []"
    "user_text (ex_all_three_task\<lparr> imageFile := None \<rparr>) = user_text ex_all_three_task"
    by (simp_all add: ex_all_three_task_def str_def user_text_def)
  have c: "imageFile ex_png_task = None" "\<not> truthy (imageUrl ex_png_task)"
    "imageBase64 ex_png_task = Some (str ''iVBORw0KGgo='')" "str ''iVBORw0KGgo='' \<noteq> []"
    "normalize_base64 (str ''iVBORw0KGgo='') (mediaType ex_png_task)
       = (str ''iVBORw0KGgo='', str ''image/png'')"
    "user_text ex_png_task = user_text ex_all_three_task"
    by (simp_all add: ex_png_task_def ex_all_three_task_def user_text_def normalize_base64_def
        starts_with_def str_def)
  from C5_image_precedence [where d = ex_all_three_task and buf = "[0x89, 0x50, 0x4E, 0x47]"
      and u = None and b = None and url = "[]" and s = "[]"]
    C5_image_precedence [where d = "ex_all_three_task\<lparr> imageFile := None \<rparr>"
      and buf = "[]" and u = None and b = None and url = "str ''https://example.com/chips.jpg''"
      and s = "[]"]
    C5_image_precedence [where d = ex_png_task and buf = "[]" and u = None and b = None
      and url = "[]" and s = "str ''iVBORw0KGgo=''"]
    a b c ex_all_three_text
  show ?thesis by simp
qed

section \<open>The request without an image\<close>

text \<open>
  C6, as amended. A request whose body is read as form data and whose form has none of
  the three image fields (or has them empty) is answered with 400 and the error
  string of the claim, and the queue is left as it was.
\<close>

theorem C6_no_image_is_rejected:
  assumes "formData env = Inr fd"
    and "form_image fd = None"
    and "\<not> truthy (form_imageUrl fd)"
    and "\<not> truthy (form_imageBase64 fd)"
  shows "validate_food rt env q =
     (\<lparr> code = 400,
        body = JObject [(str ''error'',
          jstr ''Please provide either an image file, image URL, or base64 encoded image'')] \<rparr>,
      q)"
  using assms by (simp add: validate_food_def no_image_message_def jstr_def)

theorem C6_witness:
  "formData ex_request_no_image = Inr ex_form_no_image
   \<and> form_image ex_form_no_image = None
   \<and> \<not> truthy (form_imageUrl ex_form_no_image)
   \<and> \<not> truthy (form_imageBase64 ex_form_no_image)
   \<and> validate_food ex_runtime ex_request_no_image [ex_job] =
     (\<lparr> code = 400,
        body = JObject [(str ''error'',
          jstr ''Please provide either an image file, image URL, or base64 encoded image'')] \<rparr>,
      [ex_job])"
proof -
  have h: "formData ex_request_no_image = Inr ex_form_no_image"
    "form_image ex_form_no_image = None"
    "\<not> truthy (form_imageUrl ex_form_no_image)"
    "\<not> truthy (form_imageBase64 ex_form_no_image)"
    by (simp_all add: ex_request_no_image_def ex_form_no_image_def)
  from C6_no_image_is_rejected [OF h] h show ?thesis by simp
qed

text \<open>
  The claim of C6 as it was stated fails on a request whose body is no form. Such a
  request has none of the three fields; \<open>c.req.formData()\<close> throws, and the \<open>catch\<close> of
  the handler answers 500. The queue is left as it was.
\<close>

theorem C6_counterexample:
  "code (fst (validate_food ex_runtime ex_request_no_form [ex_job])) = 500
   \<and> field (str ''error'') (body (fst (validate_food ex_runtime ex_request_no_form [ex_job])))
       = Some (jstr ''Failed to queue food validation task'')
   \<and> body (fst (validate_food ex_runtime ex_request_no_form [ex_job]))
       \<noteq> JObject [(str ''error'',
           jstr ''Please provide either an image file, image URL, or base64 encoded image'')]
   \<and> snd (validate_food ex_runtime ex_request_no_form [ex_job]) = [ex_job]"
  by (simp add: validate_food_def queue_failure_def ex_request_no_form_def jstr_def str_def)

section \<open>A reply that does not parse\<close>

text \<open>
  C7, as amended. When the model replies and \<open>JSON.parse\<close> rejects the cleaned reply
  with the message \<open>m\<close>, the body of \<open>processFoodValidation\<close> throws an \<open>Error\<close> whose
  message is \<open>Failed to parse AI response as JSON: \<close> followed by \<open>m\<close>.
\<close>

theorem C7_parse_failure_error:
  assumes "generateText env (user_content d) = Inr reply"
    and "json_parse rt (clean_response reply) = Inl m"
  shows "process_body rt env tid d
     = Inl (ErrorObj (str ''Error'') (str ''Failed to parse AI response as JSON: '' @ m))"
  using assms by (simp add: process_body_def parse_reply_def parse_failure_prefix_def)

lemma ex_prose_clean:
  "clean_response (str ''This looks like potato chips.'') = str ''This looks like potato chips.''"
  by (simp add: clean_response_def trim_def trim_end_def starts_with_def is_space_def str_def
      Let_def)

lemma ex_prose_parse:
  \<open>json_parse ex_runtime (clean_response (str ''This looks like potato chips.''))
     = Inl (str ''Unexpected token 'T', "This looks"... is not valid JSON'')\<close>
  unfolding ex_prose_clean by (simp add: ex_runtime_def ex_json_text_def str_def)

lemma ex_prose_reply:
  "generateText ex_env_prose (user_content ex_task) = Inr (str ''This looks like potato chips.'')"
  by (simp add: ex_env_prose_def)

theorem C7_witness:
  \<open>generateText ex_env_prose (user_content ex_task) = Inr (str ''This looks like potato chips.'')
   \<and> json_parse ex_runtime (clean_response (str ''This looks like potato chips.''))
     = Inl (str ''Unexpected token 'T', "This looks"... is not valid JSON'')
   \<and> process_body ex_runtime ex_env_prose (str ''1'') ex_task
     = Inl (ErrorObj (str ''Error'')
         (str ''Failed to parse AI response as JSON: Unexpected token 'T', "This looks"... is not valid JSON''))\<close>
  using C7_parse_failure_error [OF ex_prose_reply ex_prose_parse, of "str ''1''"]
    ex_prose_reply ex_prose_parse
  by (simp add: str_def)

text \<open>
  The claim of C7 as it was stated fails twice. The error of a reply that is prose
  carries the message of the parser, which quotes the first ten code units of the
  reply: the reply itself does not occur in the error. And the handler of the worker
  returns a result for it, so that the queue completes the job and does not retry.
\<close>

theorem C7_counterexample:
  \<open>process_body ex_runtime ex_env_prose (str ''1'') ex_task
     = Inl (ErrorObj (str ''Error'')
         (str ''Failed to parse AI response as JSON: Unexpected token 'T', "This looks"... is not valid JSON''))
   \<and> \<not> occurs_in (str ''This looks like potato chips.'')
         (str ''Failed to parse AI response as JSON: Unexpected token 'T', "This looks"... is not valid JSON'')
   \<and> \<not> occurs_in (str ''This looks like potato chips.'') (str ''Error'')
   \<and> worker_handler ex_runtime ex_env_prose (str ''1'') ex_task
     = Inr \<lparr> taskId = str ''1'', status = ResFailed, result = None,
           error = Some (str ''Failed to parse AI response as JSON: Unexpected token 'T', "This looks"... is not valid JSON''),
           processingTime = 8000, completedAt = str ''2025-01-01T00:00:09.000Z'' \<rparr>
   \<and> job_state (run_job (worker_handler ex_runtime) (\<lambda>k. ex_env_prose) ex_job) = Completed\<close>
proof -
  have p: \<open>process_body ex_runtime ex_env_prose (str ''1'') ex_task
     = Inl (ErrorObj (str ''Error'')
         (str ''Failed to parse AI response as JSON: Unexpected token 'T', "This looks"... is not valid JSON''))\<close>
    by (simp add: process_body_def parse_reply_def ex_prose_reply ex_prose_parse
        parse_failure_prefix_def) (simp add: str_def)
  have n: \<open>\<not> occurs_in (str ''This looks like potato chips.'')
         (str ''Failed to parse AI response as JSON: Unexpected token 'T', "This looks"... is not valid JSON'')\<close>
    \<open>\<not> occurs_in (str ''This looks like potato chips.'') (str ''Error'')\<close>
    by (simp_all add: starts_with_def str_def)
  have one: "or_default (Some (str ''1'')) (str ''unknown'') = str ''1''"
    by (simp add: str_def)
  have w: \<open>worker_handler ex_runtime ex_env_prose (str ''1'') ex_task
     = Inr \<lparr> taskId = str ''1'', status = ResFailed, result = None,
           error = Some (str ''Failed to parse AI response as JSON: Unexpected token 'T', "This looks"... is not valid JSON''),
           processingTime = 8000, completedAt = str ''2025-01-01T00:00:09.000Z'' \<rparr>\<close>
    unfolding worker_handler_eq one p by (simp add: ex_env_prose_def)
  have "\<not> terminal ex_job" "job_id ex_job = str ''1''" "job_data ex_job = ex_task"
    by (simp_all add: terminal_def ex_job_def)
  with w have "job_state (run_job (worker_handler ex_runtime) (\<lambda>k. ex_env_prose) ex_job)
      = Completed"
    by (subst run_job_returned) simp_all
  with p n w show ?thesis by simp
qed

section \<open>Polling a terminal job\<close>

lemma getJob_append: "getJob q tid = Some job \<Longrightarrow> getJob (q @ q') tid = Some job"
  by (induction q) (auto simp: getJob_def)

lemma getJob_filter:
  assumes "\<And>j. job_id j = tid \<Longrightarrow> keep j"
  shows "getJob (filter keep q) tid = getJob q tid"
  by (induction q) (auto simp: getJob_def assms)

text \<open>No event but its own removal touches the record of a terminal job.\<close>

lemma getJob_apply_event:
  assumes "getJob q tid = Some job" and "terminal job" and "ev \<noteq> Retire tid"
  shows "getJob (apply_event rt q ev) tid = Some job"
proof (cases ev)
  case (Add tid' d os now)
  with assms(1) show ?thesis
    by (simp add: enqueue_def getJob_append)
next
  case (Work tid' env)
  have "getJob (apply_event rt q ev) tid
      = map_option (\<lambda>j. if job_id j = tid' \<and> \<not> terminal j
                          then run_attempt (worker_handler rt) env j else j) (getJob q tid)"
    unfolding Work apply_event.simps by (rule getJob_map) (simp add: job_id_run_attempt)
  with assms(1,2) show ?thesis by simp
next
  case (Retire tid')
  with assms(3) have "tid' \<noteq> tid" by simp
  then have "getJob (apply_event rt q ev) tid = getJob q tid"
    unfolding Retire apply_event.simps by (intro getJob_filter) simp
  with assms(1) show ?thesis by simp
qed

lemma getJob_run_events:
  "getJob q tid = Some job \<Longrightarrow> terminal job \<Longrightarrow> Retire tid \<notin> set es \<Longrightarrow>
   getJob (run_events rt q es) tid = Some job"
proof (induction es arbitrary: q)
  case Nil
  then show ?case by (simp add: run_events_def)
next
  case (Cons ev es)
  from Cons.prems have "getJob (apply_event rt q ev) tid = Some job"
    by (intro getJob_apply_event) auto
  from Cons.IH [OF this] Cons.prems show ?case
    by (simp add: run_events_def)
qed

text \<open>The body for a terminal job does not depend on the rest of the queue.\<close>

lemma status_body_terminal:
  "terminal job \<Longrightarrow> status_body rt q tid job = status_body rt q' tid job"
  by (auto simp: status_body_def terminal_def)

text \<open>
  C8, as amended. For a job that has reached a terminal state: whatever happens to the
  queue afterwards, short of the removal of this job by the retention of the queue,
  two requests for its status that the queue answers get the same response.
\<close>

theorem C8_terminal_status_is_stable:
  assumes "getJob q tid = Some job" and "terminal job" and "Retire tid \<notin> set es"
  shows "task_status rt None (run_events rt q es) tid = task_status rt None q tid"
proof -
  have "getJob (run_events rt q es) tid = Some job"
    using assms by (rule getJob_run_events)
  with assms(1) status_body_terminal [OF assms(2), of rt "run_events rt q es" tid q]
  show ?thesis
    by (simp add: task_status_def)
qed

theorem C8_witness:
  "getJob [ex_done_job] (str ''1'') = Some ex_done_job
   \<and> terminal ex_done_job
   \<and> Retire (str ''1'') \<notin> set [Add (str ''2'') ex_task gateway_opts 9500,
         Work (str ''1'') ex_env_fail, Work (str ''2'') ex_env_fail, Retire (str ''2'')]
   \<and> task_status ex_runtime None
        (run_events ex_runtime [ex_done_job]
           [Add (str ''2'') ex_task gateway_opts 9500, Work (str ''1'') ex_env_fail,
            Work (str ''2'') ex_env_fail, Retire (str ''2'')]) (str ''1'')
      = task_status ex_runtime None [ex_done_job] (str ''1'')"
proof -
  have h: "getJob [ex_done_job] (str ''1'') = Some ex_done_job" "terminal ex_done_job"
    "Retire (str ''1'') \<notin> set [Add (str ''2'') ex_task gateway_opts 9500,
         Work (str ''1'') ex_env_fail, Work (str ''2'') ex_env_fail, Retire (str ''2'')]"
    by (simp_all add: getJob_def ex_done_job_def terminal_def str_def)
  from C8_terminal_status_is_stable [OF h] h show ?thesis by simp
qed

text \<open>
  The claim of C8 as it was stated fails: a completed job is answered with 200, after
  its removal by the retention with 404 and \<open>Task not found\<close>, and while the queue
  cannot be reached with 500.
\<close>

theorem C8_counterexample:
  "terminal ex_done_job
   \<and> code (task_status ex_runtime None [ex_done_job] (str ''1'')) = 200
   \<and> task_status ex_runtime None (run_events ex_runtime [ex_done_job] [Retire (str ''1'')])
        (str ''1'')
      = \<lparr> code = 404,
          body = JObject [(str ''success'', JBool False), (str ''error'', jstr ''Task not found''),
                          (str ''taskId'', JString (str ''1''))] \<rparr>
   \<and> code (task_status ex_runtime
        (Some (ErrorObj (str ''Error'') (str ''Connection is closed.''))) [ex_done_job]
        (str ''1''))
      = 500"
  by (simp add: terminal_def ex_done_job_def task_status_def getJob_def run_events_def)

section \<open>Jobs in flight\<close>

lemma worker_step_bound:
  "length (in_flight s) \<le> n \<Longrightarrow> length (in_flight (worker_step n s ev)) \<le> n"
proof (cases ev)
  case Claim
  assume "length (in_flight s) \<le> n"
  with Claim show ?thesis by (cases "pending s") auto
next
  case (Finish t)
  assume "length (in_flight s) \<le> n"
  moreover have "length (remove1 t (in_flight s)) \<le> length (in_flight s)"
    by (simp add: length_remove1)
  ultimately show ?thesis using Finish by simp
qed

lemma run_worker_bound:
  "length (in_flight s) \<le> n \<Longrightarrow> length (in_flight (run_worker n s evs)) \<le> n"
  unfolding run_worker_def
  by (induction evs arbitrary: s) (simp_all add: worker_step_bound)

text \<open>
  C9 (the code at the failing input). The claim is that the worker has up to N jobs in
  flight, N being \<open>queueConfig.concurrency\<close> (the value of QUEUE_CONCURRENCY, 5 when it
  is not set), and that it can have more than one. The call of \<open>process\<close> in worker.ts
  passes no concurrency: whatever N is, the concurrency of the worker is the default of
  the library, and a worker that starts with nothing in flight never has more jobs in
  flight than that default, which is 1.
\<close>

theorem C9_worker_ignores_configured_concurrency:
  "in_flight s = [] \<Longrightarrow>
   effective_concurrency library_default worker_process_call = library_default
   \<and> length (in_flight (run_worker (effective_concurrency library_default worker_process_call)
         s evs)) \<le> library_default"
proof -
  assume "in_flight s = []"
  moreover have c: "effective_concurrency library_default worker_process_call = library_default"
    by (simp add: effective_concurrency_def worker_process_call_def)
  ultimately show ?thesis
    using run_worker_bound [of s library_default evs] by simp
qed

theorem C9_witness:
  "in_flight \<lparr> pending = [str ''1'', str ''2''], in_flight = [] \<rparr> = []
   \<and> queueConfig_concurrency (\<lambda>s. if s = str ''5'' then Some 5 else None) None = Some 5
   \<and> run_worker (effective_concurrency 1 worker_process_call)
        \<lparr> pending = [str ''1'', str ''2''], in_flight = [] \<rparr> [Claim, Claim]
      = \<lparr> pending = [str ''2''], in_flight = [str ''1''] \<rparr>
   \<and> length (in_flight (run_worker (effective_concurrency 1 worker_process_call)
        \<lparr> pending = [str ''1'', str ''2''], in_flight = [] \<rparr> [Claim, Claim])) \<le> 1"
proof -
  have h: "in_flight \<lparr> pending = [str ''1'', str ''2''], in_flight = [] \<rparr> = []"
    by simp
  from C9_worker_ignores_configured_concurrency [OF h, of 1 "[Claim, Claim]"] show ?thesis
    by (simp add: run_worker_def queueConfig_concurrency_def)
qed

section \<open>What the gateway queues\<close>

lemma imageFile_build_task: "imageFile (build_task rt fd) = None"
  by (simp add: build_task_def Let_def split: option.split)

lemma validate_food_new_job:
  assumes "validate_food rt env q = (resp, q')" and "j \<in> set q'" and "j \<notin> set q"
  shows "\<exists>fd. formData env = Inr fd \<and> job_data j = build_task rt fd"
  using assms
  by (auto simp: validate_food_def enqueue_def split: sum.splits if_splits)

lemma image_part_no_buffer:
  "imageFile d = None \<Longrightarrow> image_part d \<noteq> Some (FilePart (BufferData buf) mt)"
  by (simp add: image_part_def split: prod.split)

text \<open>
  C10. A job that a request to POST /validate-food has added to the queue has no raw
  bytes in its task, so the adapter never builds its file part from raw bytes; and
  when the form had an uploaded file, the task holds the base64 encoding of the bytes
  of the file in \<open>imageBase64\<close>, and as \<open>mediaType\<close> the declared type of the file, or
  \<open>image/jpeg\<close> when that is empty.
\<close>

theorem C10_gateway_tasks_carry_no_raw_bytes:
  assumes "validate_food rt env q = (resp, q')" and "j \<in> set q'" and "j \<notin> set q"
  shows "imageFile (job_data j) = None
     \<and> (\<forall>buf mt. image_part (job_data j) \<noteq> Some (FilePart (BufferData buf) mt))
     \<and> (\<exists>fd. formData env = Inr fd
          \<and> (\<forall>f. form_image fd = Some f \<longrightarrow>
                imageBase64 (job_data j) = Some (to_base64 rt (upload_bytes f))
                \<and> mediaType (job_data j)
                    = Some (if upload_type f = [] then str ''image/jpeg'' else upload_type f)))"
proof -
  obtain fd where fd: "formData env = Inr fd" "job_data j = build_task rt fd"
    using validate_food_new_job [OF assms] by blast
  have nf: "imageFile (job_data j) = None"
    by (simp add: fd imageFile_build_task)
  have "\<forall>f. form_image fd = Some f \<longrightarrow>
                imageBase64 (job_data j) = Some (to_base64 rt (upload_bytes f))
                \<and> mediaType (job_data j)
                    = Some (if upload_type f = [] then str ''image/jpeg'' else upload_type f)"
    by (simp add: fd build_task_def)
  with nf fd(1) show ?thesis
    by (simp add: image_part_no_buffer)
qed

lemma ex_upload_enqueued:
  "snd (validate_food ex_runtime ex_request_upload []) = [ex_uploaded_job]"
  by (simp add: validate_food_def ex_request_upload_def ex_form_upload_def enqueue_def
      getJob_def build_task_def ex_upload_def ex_runtime_def ex_uploaded_job_def
      b64_digit_def str_def)

theorem C10_witness:
  "snd (validate_food ex_runtime ex_request_upload []) = [ex_uploaded_job]
   \<and> ex_uploaded_job \<in> set [ex_uploaded_job] \<and> ex_uploaded_job \<notin> set []
   \<and> formData ex_request_upload = Inr ex_form_upload
   \<and> form_image ex_form_upload = Some ex_upload
   \<and> imageFile (job_data ex_uploaded_job) = None
   \<and> imageBase64 (job_data ex_uploaded_job) = Some (to_base64 ex_runtime (upload_bytes ex_upload))
   \<and> imageBase64 (job_data ex_uploaded_job) = Some (str ''iVBORw=='')
   \<and> mediaType (job_data ex_uploaded_job) = Some (str ''image/png'')"
proof -
  have v: "validate_food ex_runtime ex_request_upload []
      = (fst (validate_food ex_runtime ex_request_upload []), [ex_uploaded_job])"
    using ex_upload_enqueued by (metis prod.collapse)
  have m: "ex_uploaded_job \<in> set [ex_uploaded_job]" "ex_uploaded_job \<notin> set []"
    by simp_all
  have f: "formData ex_request_upload = Inr ex_form_upload"
    "form_image ex_form_upload = Some ex_upload"
    by (simp_all add: ex_request_upload_def ex_form_upload_def)
  have u: "upload_type ex_upload = str ''image/png''" "str ''image/png'' \<noteq> []"
    by (simp_all add: ex_upload_def str_def)
  have c: "imageBase64 (job_data ex_uploaded_job) = Some (str ''iVBORw=='')"
    by (simp add: ex_uploaded_job_def)
  from C10_gateway_tasks_carry_no_raw_bytes [OF v m] f u c ex_upload_enqueued m
  show ?thesis by auto
qed

end
